theory Spec2Isabelle
  imports Complex_Main
begin

section \<open>Go strings: the functions of package strings the program calls\<close>

text \<open>
  A Go string is a sequence of bytes, here a \<open>string\<close> (a list of 8-bit characters).
  Every function below follows the behaviour of the Go standard library on bytes.
\<close>

text \<open>strings.HasPrefix(s, prefix).\<close>

fun HasPrefix :: "string \<Rightarrow> string \<Rightarrow> bool" where
  "HasPrefix s [] = True"
| "HasPrefix [] (p # ps) = False"
| "HasPrefix (c # cs) (p # ps) = (c = p \<and> HasPrefix cs ps)"

text \<open>strings.HasSuffix(s, suffix).\<close>

definition HasSuffix :: "string \<Rightarrow> string \<Rightarrow> bool" where
  "HasSuffix s suf = HasPrefix (rev s) (rev suf)"

text \<open>strings.Contains(s, substr).\<close>

fun Contains :: "string \<Rightarrow> string \<Rightarrow> bool" where
  "Contains [] sub = HasPrefix [] sub"
| "Contains (c # cs) sub = (HasPrefix (c # cs) sub \<or> Contains cs sub)"

text \<open>strings.TrimSuffix(s, suffix).\<close>

definition TrimSuffix :: "string \<Rightarrow> string \<Rightarrow> string" where
  "TrimSuffix s suf = (if HasSuffix s suf then take (length s - length suf) s else s)"

text \<open>
  strings.Split(s, sep) for a separator of one byte (the program splits on a newline and
  on a dot only): one piece more than there are separators, so the empty string gives one
  empty piece.
\<close>

fun Split :: "string \<Rightarrow> char \<Rightarrow> string list" where
  "Split [] sep = [[]]"
| "Split (c # cs) sep =
     (if c = sep then [] # Split cs sep
      else (case Split cs sep of [] \<Rightarrow> [[c]] | p # ps \<Rightarrow> (c # p) # ps))"

text \<open>strings.Join(elems, sep).\<close>

fun Join :: "string list \<Rightarrow> string \<Rightarrow> string" where
  "Join [] sep = []"
| "Join [x] sep = x"
| "Join (x # y # ys) sep = x @ sep @ Join (y # ys) sep"

text \<open>
  The white space of unicode.IsSpace, each rune as its UTF-8 bytes: tab, line feed,
  vertical tab, form feed, carriage return, space, U+0085, U+00A0, U+1680, U+2000 to
  U+200A, U+2028, U+2029, U+202F, U+205F and U+3000.
\<close>

definition spaceRunes :: "string list" where
  "spaceRunes =
     [[CHR 0x09], [CHR 0x0A], [CHR 0x0B], [CHR 0x0C], [CHR 0x0D], [CHR 0x20],
      [CHR 0xC2, CHR 0x85], [CHR 0xC2, CHR 0xA0],
      [CHR 0xE1, CHR 0x9A, CHR 0x80],
      [CHR 0xE2, CHR 0x80, CHR 0x80], [CHR 0xE2, CHR 0x80, CHR 0x81],
      [CHR 0xE2, CHR 0x80, CHR 0x82], [CHR 0xE2, CHR 0x80, CHR 0x83],
      [CHR 0xE2, CHR 0x80, CHR 0x84], [CHR 0xE2, CHR 0x80, CHR 0x85],
      [CHR 0xE2, CHR 0x80, CHR 0x86], [CHR 0xE2, CHR 0x80, CHR 0x87],
      [CHR 0xE2, CHR 0x80, CHR 0x88], [CHR 0xE2, CHR 0x80, CHR 0x89],
      [CHR 0xE2, CHR 0x80, CHR 0x8A],
      [CHR 0xE2, CHR 0x80, CHR 0xA8], [CHR 0xE2, CHR 0x80, CHR 0xA9],
      [CHR 0xE2, CHR 0x80, CHR 0xAF],
      [CHR 0xE2, CHR 0x81, CHR 0x9F],
      [CHR 0xE3, CHR 0x80, CHR 0x80]]"

text \<open>
  The width in bytes of the white-space rune a string starts with (utf8.DecodeRuneInString
  followed by unicode.IsSpace), and of the one it ends with (utf8.DecodeLastRuneInString);
  0 when the rune there is not white space.
\<close>

definition firstSpaceLen :: "string \<Rightarrow> nat" where
  "firstSpaceLen s = (case find (HasPrefix s) spaceRunes of None \<Rightarrow> 0 | Some p \<Rightarrow> length p)"

definition lastSpaceLen :: "string \<Rightarrow> nat" where
  "lastSpaceLen s = (case find (HasSuffix s) spaceRunes of None \<Rightarrow> 0 | Some p \<Rightarrow> length p)"

lemma firstSpaceLen_less: "0 < firstSpaceLen s \<Longrightarrow> length s - firstSpaceLen s < length s"
  by (cases s) (auto simp: firstSpaceLen_def spaceRunes_def)

lemma lastSpaceLen_less: "0 < lastSpaceLen s \<Longrightarrow> length s - lastSpaceLen s < length s"
  by (cases s) (auto simp: lastSpaceLen_def spaceRunes_def HasSuffix_def)

text \<open>strings.TrimLeftFunc(s, unicode.IsSpace) and strings.TrimRightFunc(s, unicode.IsSpace).\<close>

function TrimLeftSpace :: "string \<Rightarrow> string" where
  "TrimLeftSpace s =
     (if firstSpaceLen s = 0 then s else TrimLeftSpace (drop (firstSpaceLen s) s))"
  by pat_completeness auto
termination
  by (relation "measure length") (auto intro: firstSpaceLen_less)

function TrimRightSpace :: "string \<Rightarrow> string" where
  "TrimRightSpace s =
     (if lastSpaceLen s = 0 then s else TrimRightSpace (take (length s - lastSpaceLen s) s))"
  by pat_completeness auto
termination
  by (relation "measure length") (auto intro: lastSpaceLen_less)

declare TrimLeftSpace.simps [simp del] TrimRightSpace.simps [simp del]

text \<open>strings.TrimSpace(s): the leading white space goes first, then the trailing.\<close>

definition TrimSpace :: "string \<Rightarrow> string" where
  "TrimSpace s = TrimRightSpace (TrimLeftSpace s)"

section \<open>The section classifier (package translate)\<close>

text \<open>
  The loop of extractSections over the lines: \<open>sections\<close> and \<open>currentSection\<close> are the
  two slices the loop appends to; the flush after the loop is the base case.
\<close>

fun extractLoop :: "string list \<Rightarrow> string list \<Rightarrow> string list \<Rightarrow> string list" where
  "extractLoop [] sections currentSection =
     (if length currentSection > 0
      then sections @ [Join currentSection ''\<newline>'']
      else sections)"
| "extractLoop (line # lines) sections currentSection =
     (if line = []
      then extractLoop lines
             ((if length currentSection > 0
               then sections @ [Join currentSection ''\<newline>'']
               else sections) @ [line])
             []
      else extractLoop lines sections (currentSection @ [line]))"

definition extractSections :: "string \<Rightarrow> string list" where
  "extractSections content = extractLoop (Split content CHR ''\<newline>'') [] []"

text \<open>shouldTranslate: the first test that applies decides, in the order of the source.\<close>

definition shouldTranslate :: "string \<Rightarrow> bool" where
  "shouldTranslate section0 =
     (let section = TrimSpace section0 in
      if section = [] then False
      else if HasPrefix section ''---'' \<or> HasSuffix section ''---'' then False
      else if HasPrefix section ''%'' then False
      else if Contains section ''|'' \<and>
              (Contains section ''---'' \<or> Contains section ''Table:'') then False
      else if HasPrefix section [CHR 0x60, CHR 0x60, CHR 0x60] \<or>
              HasSuffix section [CHR 0x60, CHR 0x60, CHR 0x60] then False
      else if Contains section ''header-includes:'' \<or>
              Contains section (CHR 0x5C # ''usepackage'') then False
      else True)"

section \<open>Go paths: the functions of package path/filepath the program calls (Unix)\<close>

text \<open>
  The loop of filepath.Clean over the elements between slashes: an empty element and
  \<open>.\<close> are dropped; \<open>..\<close> removes the element before it when there is one that is
  not itself \<open>..\<close>, is dropped at the root, and is kept otherwise.
\<close>

fun cleanLoop :: "bool \<Rightarrow> string list \<Rightarrow> string list \<Rightarrow> string list" where
  "cleanLoop rooted [] out = out"
| "cleanLoop rooted (e # es) out =
     (if e = [] \<or> e = ''.'' then cleanLoop rooted es out
      else if e = ''..'' then
        (if out \<noteq> [] \<and> last out \<noteq> ''..'' then cleanLoop rooted es (butlast out)
         else if rooted then cleanLoop rooted es out
         else cleanLoop rooted es (out @ [''..'']))
      else cleanLoop rooted es (out @ [e]))"

text \<open>filepath.Clean(path): the shortest equivalent path; the empty path becomes \<open>.\<close>.\<close>

definition Clean :: "string \<Rightarrow> string" where
  "Clean path =
     (if path = [] then ''.''
      else
        (let rooted = (hd path = CHR ''/'');
             out = cleanLoop rooted (Split path CHR ''/'') []
         in if rooted then CHR ''/'' # Join out ''/''
            else if out = [] then ''.''
            else Join out ''/''))"

text \<open>filepath.Dir(path): all but the last element, cleaned.\<close>

definition Dir :: "string \<Rightarrow> string" where
  "Dir path = Clean (rev (dropWhile (\<lambda>c. c \<noteq> CHR ''/'') (rev path)))"

text \<open>
  filepath.Base(path): the last element, trailing slashes removed first; \<open>.\<close> for the
  empty path and \<open>/\<close> for a path of slashes only.
\<close>

definition Base :: "string \<Rightarrow> string" where
  "Base path =
     (if path = [] then ''.''
      else
        (let stripped = rev (dropWhile (\<lambda>c. c = CHR ''/'') (rev path));
             elem = rev (takeWhile (\<lambda>c. c \<noteq> CHR ''/'') (rev stripped))
         in if elem = [] then ''/'' else elem))"

text \<open>
  filepath.Ext(path): the suffix that starts at the last dot of the last element; empty
  when that element has no dot.
\<close>

definition Ext :: "string \<Rightarrow> string" where
  "Ext path =
     (let elem = rev (takeWhile (\<lambda>c. c \<noteq> CHR ''/'') (rev path))
      in if CHR ''.'' \<in> set elem
         then CHR ''.'' # rev (takeWhile (\<lambda>c. c \<noteq> CHR ''.'') (rev elem))
         else [])"

text \<open>filepath.Join(elem...): empty leading elements are ignored, the rest joined and cleaned.\<close>

fun filepathJoin :: "string list \<Rightarrow> string" where
  "filepathJoin [] = []"
| "filepathJoin (e # es) = (if e \<noteq> [] then Clean (Join (e # es) ''/'') else filepathJoin es)"

section \<open>The filename codec (packages render and path)\<close>

text \<open>isTemplateFile: false for README and TODO files and for a name that carries a tag.\<close>

definition isTemplateFile :: "string \<Rightarrow> bool" where
  "isTemplateFile path =
     (let filename = Base path in
      if HasPrefix filename ''README'' \<or> HasPrefix filename ''TODO'' then False
      else
        (let parts = Split filename CHR ''.'' in
         if length parts \<ge> 3 then
           (let langPart = parts ! (length parts - 2) in
            if length langPart \<ge> 2 \<and> (Contains langPart ''-'' \<or> length langPart = 2)
            then False
            else True)
         else True))"

text \<open>generateTranslatedPath: the tag goes in front of the extension.\<close>

definition generateTranslatedPath :: "string \<Rightarrow> string \<Rightarrow> string" where
  "generateTranslatedPath originalPath lang =
     (let dir = Dir originalPath;
          filename = Base originalPath;
          ext = Ext filename;
          nameWithoutExt = TrimSuffix filename ext;
          translatedFilename = nameWithoutExt @ ''.'' @ lang @ ext
      in filepathJoin [dir, translatedFilename])"

text \<open>
  extractLanguageFromFilename: the last part but one when it looks like a tag, the empty
  string otherwise. The source does not read its second parameter.
\<close>

definition extractLanguageFromFilename :: "string \<Rightarrow> string \<Rightarrow> string" where
  "extractLanguageFromFilename filename extension =
     (let parts = Split filename CHR ''.'' in
      if length parts \<ge> 3 then
        (let langPart = parts ! (length parts - 2) in
         if length langPart \<ge> 2 \<and> (Contains langPart ''-'' \<or> length langPart = 2)
         then langPart
         else [])
      else [])"

section \<open>Errors, results and the outside world\<close>

text \<open>
  A Go error, by the way it was built: \<open>Errorf m\<close> is an error with the message m
  (fmt.Errorf, and every error of the standard library); \<open>Wrap e m\<close> is
  errors.Wrap(e, m) and errors.Wrapf(e, ...) with the formatted message m.
\<close>

datatype error = Errorf string | Wrap error string

text \<open>err.Error(): a wrapped error prints its own message, a colon and its cause.\<close>

fun errorMessage :: "error \<Rightarrow> string" where
  "errorMessage (Errorf m) = m"
| "errorMessage (Wrap e m) = m @ '': '' @ errorMessage e"

text \<open>
  What a call ends with: a value, an error value it returns, or a panic (a failed type
  assertion), which no function of the program recovers from.
\<close>

datatype 'a result = Ok 'a | Fail error | Panicked string

text \<open>
  A decoded JSON value, as encoding/json decodes into \<open>interface{}\<close>: an object is the
  association list of its map, the first entry of a key being its value.
\<close>

datatype json =
    JNull
  | JBool bool
  | JNumber rat
  | JString string
  | JArray "json list"
  | JObject "(string \<times> json) list"

text \<open>Indexing a decoded map: a missing key gives nil.\<close>

definition mapIndex :: "(string \<times> json) list \<Rightarrow> string \<Rightarrow> json" where
  "mapIndex m k = (case map_of m k of None \<Rightarrow> JNull | Some v \<Rightarrow> v)"

text \<open>An HTTP POST request as the providers build it, and the response read back.\<close>

record request =
  reqURL :: string
  reqHeaders :: "(string \<times> string) list"
  reqBody :: json
  reqTimeout :: nat

record response =
  StatusCode :: nat
  respBody :: string

text \<open>
  An entry of the file system, a file or a directory: os.Stat sees its time and whether it
  is a directory, ioutil.ReadFile needs a readable file.
\<close>

record fsFile =
  fileContent :: string
  fileModTime :: int
  fileReadable :: bool
  fileIsDir :: bool

text \<open>
  The effects of the program, in the order they happen: an HTTP request sent, a file
  written or removed, a staleness record stored, the preprocessor and the renderer run.
\<close>

datatype event =
    HttpPost request
  | Write string string
  | Remove string
  | RecordModified string int
  | Pandoc string

text \<open>
  The state the program works on: the file system (\<open>writable\<close> says where
  ioutil.WriteFile succeeds, \<open>clock\<close> is the time a written file gets), the process-wide
  staleness map \<open>subjects\<close>, the effects so far, and standard output.
\<close>

record world =
  files :: "string \<Rightarrow> fsFile option"
  writable :: "string \<Rightarrow> bool"
  clock :: int
  subjects :: "string \<Rightarrow> int option"
  trace :: "event list"
  stdout :: "string list"

text \<open>fmt.Printf and fmt.Println, after formatting.\<close>

definition printOut :: "string \<Rightarrow> world \<Rightarrow> world" where
  "printOut s w = w\<lparr>stdout := stdout w @ [s]\<rparr>"

text \<open>ioutil.ReadFile, os.Stat (the modification time is all the program reads of it),
  ioutil.WriteFile with mode 0644 and os.Remove.\<close>

definition ReadFile :: "world \<Rightarrow> string \<Rightarrow> error + string" where
  "ReadFile w path =
     (case files w path of
        None \<Rightarrow> Inl (Errorf (''open '' @ path @ '': no such file or directory''))
      | Some f \<Rightarrow>
          if fileIsDir f then Inl (Errorf (''read '' @ path @ '': is a directory''))
          else if fileReadable f then Inr (fileContent f)
          else Inl (Errorf (''open '' @ path @ '': permission denied'')))"

definition Stat :: "world \<Rightarrow> string \<Rightarrow> error + int" where
  "Stat w path =
     (case files w path of
        None \<Rightarrow> Inl (Errorf (''stat '' @ path @ '': no such file or directory''))
      | Some f \<Rightarrow> Inr (fileModTime f))"

definition WriteFile :: "string \<Rightarrow> string \<Rightarrow> world \<Rightarrow> error option \<times> world" where
  "WriteFile path content w =
     (if writable w path
      then (None,
            w\<lparr>files := (files w)(path \<mapsto>
                   \<lparr>fileContent = content, fileModTime = clock w,
                    fileReadable = (case files w path of None \<Rightarrow> True | Some f \<Rightarrow> fileReadable f),
                    fileIsDir = False\<rparr>),
              trace := trace w @ [Write path content]\<rparr>)
      else (Some (Errorf (''open '' @ path @ '': permission denied'')), w))"

definition osRemove :: "string \<Rightarrow> world \<Rightarrow> world" where
  "osRemove path w =
     (case files w path of
        None \<Rightarrow> w
      | Some f \<Rightarrow> w\<lparr>files := (files w)(path := None), trace := trace w @ [Remove path]\<rparr>)"

section \<open>The data of the program\<close>

text \<open>
  model.Document and model.Procedure, with the fields the translation code reads (it
  copies Satisfies and Revisions of a procedure and never looks at them).
\<close>

record Document =
  Name :: string
  Body :: string
  FullPath :: string
  OutputFilename :: string
  ModifiedAt :: int

record Procedure =
  procName :: string
  procBody :: string
  procFullPath :: string
  procOutputFilename :: string
  procModifiedAt :: int

text \<open>renderData, without the standards, which the translation code passes on unread.\<close>

record renderData =
  Policies :: "Document list"
  Procedures :: "Procedure list"
  Narratives :: "Document list"

text \<open>The translation block of comply.yml (config.Config().Translation, nil when absent).\<close>

record TranslationConfig =
  cfgEnabled :: bool
  cfgLanguages :: "string list"
  cfgProvider :: string
  cfgModel :: string

text \<open>
  What the program takes from outside its own code, as parameters: the HTTP exchange
  (\<open>newRequestError\<close> is the error of http.NewRequest for a URL, \<open>httpDo\<close> the outcome of
  client.Do followed by ioutil.ReadAll, which may depend on all that happened before),
  json.Unmarshal into an empty interface, strings.ToLower, os.Getenv, the configuration,
  filepath.Walk (the entries it visits, each with its IsDir), filepath.Rel, the readers of
  package model, and the two functions of package render that are not among the sources:
  \<open>preprocessOut\<close> is the markdown preprocessDoc produces for a document, \<open>pandocOut\<close> the
  error the renderer reports for an output name.
\<close>

record env =
  newRequestError :: "string \<Rightarrow> error option"
  httpDo :: "world \<Rightarrow> request \<Rightarrow> error + response"
  jsonUnmarshal :: "string \<Rightarrow> error + json"
  ToLower :: "string \<Rightarrow> string"
  Getenv :: "string \<Rightarrow> string"
  Translation :: "TranslationConfig option"
  Walk :: "world \<Rightarrow> string \<Rightarrow> error + (string \<times> bool) list"
  Rel :: "string \<Rightarrow> string \<Rightarrow> error + string"
  ReadPolicies :: "error + Document list"
  ReadProcedures :: "error + Procedure list"
  ReadNarratives :: "error + Document list"
  ReadStandards :: "error option"
  preprocessOut :: "renderData \<Rightarrow> Document \<Rightarrow> error + string"
  pandocOut :: "world \<Rightarrow> string \<Rightarrow> error option"

section \<open>The providers (package translate)\<close>

text \<open>
  The three implementations of the interface Provider: OpenAIProvider and
  AnthropicProvider hold APIKey and Model, OllamaProvider holds BaseURL and Model.
\<close>

datatype Provider =
    OpenAIProvider string string
  | AnthropicProvider string string
  | OllamaProvider string string

text \<open>
  The method Translate of the interface, as a function: text, source language, target
  language. TranslateTemplateDirect and the loop of TranslateDocument work on any
  implementation.
\<close>

type_synonym Translator = "string \<Rightarrow> string \<Rightarrow> string \<Rightarrow> world \<Rightarrow> string result \<times> world"

text \<open>getEnvDefault and getAPIKey.\<close>

definition getEnvDefault :: "env \<Rightarrow> string \<Rightarrow> string \<Rightarrow> string" where
  "getEnvDefault env key defaultValue =
     (if Getenv env key \<noteq> [] then Getenv env key else defaultValue)"

definition getAPIKey :: "env \<Rightarrow> string \<Rightarrow> string" where
  "getAPIKey env provider =
     (if ToLower env provider = ''openai'' then Getenv env ''OPENAI_API_KEY''
      else if ToLower env provider = ''anthropic'' then Getenv env ''ANTHROPIC_API_KEY''
      else [])"

text \<open>NewProvider: the kind is compared in lower case; each kind has its default model.\<close>

definition NewProvider :: "env \<Rightarrow> string \<Rightarrow> string \<Rightarrow> string \<Rightarrow> Provider result" where
  "NewProvider env providerType apiKey model =
     (if ToLower env providerType = ''openai''
      then Ok (OpenAIProvider apiKey (if model = [] then ''gpt-4'' else model))
      else if ToLower env providerType = ''anthropic''
      then Ok (AnthropicProvider apiKey
                 (if model = [] then ''claude-3-5-sonnet-20241022'' else model))
      else if ToLower env providerType = ''ollama''
      then Ok (OllamaProvider (getEnvDefault env ''OLLAMA_URL'' ''http://localhost:11434'')
                 (if model = [] then getEnvDefault env ''OLLAMA_MODEL'' ''llama3:8b''
                  else model))
      else Fail (Errorf (''unsupported provider: '' @ providerType)))"

text \<open>The prompt the three Translate methods build, the same text in each.\<close>

definition translatePrompt :: "string \<Rightarrow> string \<Rightarrow> string \<Rightarrow> string" where
  "translatePrompt sourceLang targetLang text =
     ''You are a professional compliance document translator. Translate the following text from ''
     @ sourceLang @ '' to '' @ targetLang @
     '' exactly as written, preserving all formatting, markdown syntax, YAML frontmatter, and technical terms. Do not add any comments, explanations, or additional content. Return only the translated text.''
     @ ''\<newline>\<newline>'' @ text"

text \<open>
  json.Unmarshal(body, &response) for a response of type map[string]interface{}: an
  object gives its map, null leaves the nil map, any other value is a type error.
\<close>

definition decodeMap :: "json \<Rightarrow> (string \<times> json) list result" where
  "decodeMap j =
     (case j of
        JObject m \<Rightarrow> Ok m
      | JNull \<Rightarrow> Ok []
      | JBool b \<Rightarrow> Fail (Errorf
          ''json: cannot unmarshal bool into Go value of type map[string]interface {}'')
      | JNumber n \<Rightarrow> Fail (Errorf
          ''json: cannot unmarshal number into Go value of type map[string]interface {}'')
      | JString s \<Rightarrow> Fail (Errorf
          ''json: cannot unmarshal string into Go value of type map[string]interface {}'')
      | JArray a \<Rightarrow> Fail (Errorf
          ''json: cannot unmarshal array into Go value of type map[string]interface {}''))"

text \<open>
  The lines the three makeRequest methods share, for the request each of them builds:
  http.NewRequest, client.Do, ioutil.ReadAll, every status but 200 refused with the body in
  the message, json.Unmarshal. Marshalling the request body cannot fail for the values the
  program builds.
\<close>

definition postJSON ::
  "env \<Rightarrow> request \<Rightarrow> world \<Rightarrow> (string \<times> json) list result \<times> world" where
  "postJSON env req w =
     (case newRequestError env (reqURL req) of
        Some e \<Rightarrow> (Fail e, w)
      | None \<Rightarrow>
          (let w' = w\<lparr>trace := trace w @ [HttpPost req]\<rparr>
           in case httpDo env w req of
                Inl e \<Rightarrow> (Fail e, w')
              | Inr resp \<Rightarrow>
                  if StatusCode resp \<noteq> 200
                  then (Fail (Errorf (''API request failed: '' @ respBody resp)), w')
                  else (case jsonUnmarshal env (respBody resp) of
                          Inl e \<Rightarrow> (Fail e, w')
                        | Inr j \<Rightarrow> (decodeMap j, w'))))"

text \<open>The extraction at the end of each makeRequest.\<close>

definition unexpectedFormat :: "string result" where
  "unexpectedFormat = Fail (Errorf ''unexpected response format'')"

definition openAIContent :: "(string \<times> json) list \<Rightarrow> string result" where
  "openAIContent response =
     (case mapIndex response ''choices'' of
        JArray (c # cs) \<Rightarrow>
          (case c of
             JObject choice \<Rightarrow>
               (case mapIndex choice ''message'' of
                  JObject message \<Rightarrow>
                    (case mapIndex message ''content'' of
                       JString content \<Rightarrow> Ok (TrimSpace content)
                     | _ \<Rightarrow> unexpectedFormat)
                | _ \<Rightarrow> unexpectedFormat)
           | _ \<Rightarrow> unexpectedFormat)
      | _ \<Rightarrow> unexpectedFormat)"

definition anthropicContent :: "(string \<times> json) list \<Rightarrow> string result" where
  "anthropicContent response =
     (case mapIndex response ''content'' of
        JArray (item0 # items) \<Rightarrow>
          (case item0 of
             JObject item \<Rightarrow>
               (case mapIndex item ''text'' of
                  JString text \<Rightarrow> Ok (TrimSpace text)
                | _ \<Rightarrow> unexpectedFormat)
           | _ \<Rightarrow> unexpectedFormat)
      | _ \<Rightarrow> unexpectedFormat)"

text \<open>
  The name Go prints for the dynamic type of a decoded value, as it stands in the
  message of a failed type assertion.
\<close>

definition goTypeName :: "json \<Rightarrow> string" where
  "goTypeName j =
     (case j of
        JNull \<Rightarrow> ''nil''
      | JBool b \<Rightarrow> ''bool''
      | JNumber n \<Rightarrow> ''float64''
      | JString s \<Rightarrow> ''string''
      | JArray a \<Rightarrow> ''[]interface {}''
      | JObject m \<Rightarrow> ''map[string]interface {}'')"

text \<open>
  The Ollama extraction asserts the type without the comma-ok form: a \<open>response\<close> that
  is not nil and not a string panics, with the runtime's message for the value's type.
\<close>

definition ollamaContent :: "(string \<times> json) list \<Rightarrow> string result" where
  "ollamaContent response =
     (if mapIndex response ''response'' \<noteq> JNull
      then (case mapIndex response ''response'' of
              JString s \<Rightarrow> Ok (TrimSpace s)
            | other \<Rightarrow>
                Panicked (''interface conversion: interface {} is '' @ goTypeName other
                            @ '', not string''))
      else unexpectedFormat)"

definition withContent ::
  "((string \<times> json) list \<Rightarrow> string result) \<Rightarrow> (string \<times> json) list result \<times> world
     \<Rightarrow> string result \<times> world" where
  "withContent extract r =
     (case r of
        (Ok response, w) \<Rightarrow> (extract response, w)
      | (Fail e, w) \<Rightarrow> (Fail e, w)
      | (Panicked p, w) \<Rightarrow> (Panicked p, w))"

definition userMessages :: "string \<Rightarrow> json" where
  "userMessages prompt =
     JArray [JObject [(''role'', JString ''user''), (''content'', JString prompt)]]"

text \<open>
  The request each provider's Translate and makeRequest build for a prompt: the URL, the
  headers set on it, the JSON body and the timeout of the client in seconds.
\<close>

fun providerRequest :: "Provider \<Rightarrow> string \<Rightarrow> request" where
  "providerRequest (OpenAIProvider APIKey Model) prompt =
     \<lparr>reqURL = ''https://api.openai.com/v1/chat/completions'',
      reqHeaders = [(''Content-Type'', ''application/json''),
                    (''Authorization'', ''Bearer '' @ APIKey)],
      reqBody = JObject [(''model'', JString Model),
                         (''messages'', userMessages prompt),
                         (''max_tokens'', JNumber 4000),
                         (''temperature'', JNumber (1 / 10))],
      reqTimeout = 60\<rparr>"
| "providerRequest (AnthropicProvider APIKey Model) prompt =
     \<lparr>reqURL = ''https://api.anthropic.com/v1/messages'',
      reqHeaders = [(''Content-Type'', ''application/json''),
                    (''Authorization'', ''Bearer '' @ APIKey),
                    (''anthropic-version'', ''2023-06-01'')],
      reqBody = JObject [(''model'', JString Model),
                         (''max_tokens'', JNumber 4000),
                         (''messages'', userMessages prompt)],
      reqTimeout = 60\<rparr>"
| "providerRequest (OllamaProvider BaseURL Model) prompt =
     \<lparr>reqURL = BaseURL @ ''/api/generate'',
      reqHeaders = [(''Content-Type'', ''application/json'')],
      reqBody = JObject [(''model'', JString Model),
                         (''prompt'', JString prompt),
                         (''stream'', JBool False)],
      reqTimeout = 120\<rparr>"

text \<open>The extraction each provider's makeRequest ends with.\<close>

fun providerContent :: "Provider \<Rightarrow> (string \<times> json) list \<Rightarrow> string result" where
  "providerContent (OpenAIProvider APIKey Model) = openAIContent"
| "providerContent (AnthropicProvider APIKey Model) = anthropicContent"
| "providerContent (OllamaProvider BaseURL Model) = ollamaContent"

text \<open>Translate of each of the three providers: the prompt, the request, the extraction.\<close>

definition Translate :: "env \<Rightarrow> Provider \<Rightarrow> Translator" where
  "Translate env p text sourceLang targetLang w =
     withContent (providerContent p)
       (postJSON env (providerRequest p (translatePrompt sourceLang targetLang text)) w)"

section \<open>Template translation in one call, and the cleanup of the answer\<close>

text \<open>The prompt of TranslateTemplateDirect: its format string with the four arguments
  targetLang, targetLang, content, targetLang filled in.\<close>

definition directPrompt :: "string \<Rightarrow> string \<Rightarrow> string" where
  "directPrompt targetLang content =
     ''You are a professional translator. Your task is to translate a markdown template document while preserving its exact structure and format.''
     @ ''\<newline>\<newline>**Instructions:**\<newline>''
     @ ''1. Translate the YAML metadata fields: '' @ [CHR 0x60] @ ''name'' @ [CHR 0x60]
     @ '' and '' @ [CHR 0x60] @ ''comment'' @ [CHR 0x60] @ '' values to '' @ targetLang
     @ ''\<newline>2. Translate all content after the '' @ [CHR 0x60] @ ''---'' @ [CHR 0x60]
     @ '' separator to '' @ targetLang
     @ ''\<newline>3. Keep all other YAML fields unchanged (acronym, satisfies, dates, etc.)''
     @ ''\<newline>4. Preserve all markdown formatting, template variables (like {{.Name}}), and document structure''
     @ ''\<newline>5. Return only the translated content with no additional comments or explanations''
     @ ''\<newline>6. Maintain the exact same line breaks and spacing as the original''
     @ ''\<newline>\<newline>**Input document:**\<newline>'' @ content
     @ ''\<newline>\<newline>**Target language:** '' @ targetLang"

text \<open>
  The four prefix patterns are regular expressions of one shape,
  \<open>(?i)^\s*word(\s+word)*:?\s*\n?\<close>. They are anchored at the start of the text, so
  ReplaceAllString removes one match at most, and every repetition in them is followed by
  a byte it cannot match, so the greedy match is the only one (and the final \<open>\n?\<close>
  finds nothing left to match). \<open>\s\<close> is tab, line feed, form feed, carriage return
  and space.
\<close>

definition reSpace :: "char \<Rightarrow> bool" where
  "reSpace c = (c = CHR 0x09 \<or> c = CHR 0x0A \<or> c = CHR 0x0C \<or> c = CHR 0x0D \<or> c = CHR 0x20)"

text \<open>
  One letter of a pattern under \<open>(?i)\<close>: the letter itself, its capital, and for
  \<open>s\<close> and \<open>k\<close> the runes U+017F and U+212A, which fold to them. The result is what
  is left of the text behind the letter.
\<close>

definition matchLetter :: "char \<Rightarrow> string \<Rightarrow> string option" where
  "matchLetter p s =
     (if HasPrefix s [p] then Some (drop 1 s)
      else if HasPrefix s [char_of (of_char p - (32::nat))] then Some (drop 1 s)
      else if p = CHR ''s'' \<and> HasPrefix s [CHR 0xC5, CHR 0xBF] then Some (drop 2 s)
      else if p = CHR ''k'' \<and> HasPrefix s [CHR 0xE2, CHR 0x84, CHR 0xAA] then Some (drop 3 s)
      else None)"

fun matchWord :: "string \<Rightarrow> string \<Rightarrow> string option" where
  "matchWord [] s = Some s"
| "matchWord (p # ps) s =
     (case matchLetter p s of None \<Rightarrow> None | Some r \<Rightarrow> matchWord ps r)"

text \<open>The words of a pattern, with \<open>\s+\<close> between them.\<close>

fun matchWords :: "string list \<Rightarrow> string \<Rightarrow> string option" where
  "matchWords [] s = Some s"
| "matchWords [word] s = matchWord word s"
| "matchWords (word # word' # ws) s =
     (case matchWord word s of
        None \<Rightarrow> None
      | Some r \<Rightarrow>
          (case r of
             [] \<Rightarrow> None
           | c # cs \<Rightarrow>
               if reSpace c then matchWords (word' # ws) (dropWhile reSpace r) else None))"

text \<open>regexp.MustCompile(pattern).ReplaceAllString(s, "") for the pattern of these words.\<close>

definition removePrefixPattern :: "string list \<Rightarrow> string \<Rightarrow> string" where
  "removePrefixPattern ws s =
     (case matchWords ws (dropWhile reSpace s) of
        None \<Rightarrow> s
      | Some r \<Rightarrow>
          dropWhile reSpace
            (case r of [] \<Rightarrow> r | c # cs \<Rightarrow> if c = CHR '':'' then cs else r))"

definition prefixPatterns :: "string list list" where
  "prefixPatterns =
     [[''here'', ''is'', ''the'', ''translated'', ''document''],
      [''translated'', ''document''],
      [''result''],
      [''translation'']]"

text \<open>
  MatchString for \<open>^[a-zA-Z][a-zA-Z0-9]*:\s*\<close>: a letter, letters and digits, a colon.
\<close>

definition byteIn :: "char \<Rightarrow> char \<Rightarrow> char \<Rightarrow> bool" where
  "byteIn lo hi c = ((of_char lo :: nat) \<le> of_char c \<and> (of_char c :: nat) \<le> of_char hi)"

definition isLetter :: "char \<Rightarrow> bool" where
  "isLetter c = (byteIn CHR ''a'' CHR ''z'' c \<or> byteIn CHR ''A'' CHR ''Z'' c)"

definition isAlnum :: "char \<Rightarrow> bool" where
  "isAlnum c = (isLetter c \<or> byteIn CHR ''0'' CHR ''9'' c)"

definition yamlFieldMatch :: "string \<Rightarrow> bool" where
  "yamlFieldMatch s =
     (case s of
        [] \<Rightarrow> False
      | c # cs \<Rightarrow>
          isLetter c \<and>
          (case dropWhile isAlnum cs of [] \<Rightarrow> False | d # ds \<Rightarrow> d = CHR '':''))"

text \<open>The search for startIndex: the index of the first line that looks like the start of
  the document, None for the -1 of the source.\<close>

definition looksLikeStart :: "string \<Rightarrow> bool" where
  "looksLikeStart line =
     (let trimmed = TrimSpace line in
      trimmed = ''---'' \<or> yamlFieldMatch trimmed \<or> HasPrefix trimmed ''#'')"

fun findStart :: "string list \<Rightarrow> nat \<Rightarrow> nat option" where
  "findStart [] i = None"
| "findStart (line # lines) i =
     (if looksLikeStart line then Some i else findStart lines (Suc i))"

definition cleanDirectTranslationResponse :: "string \<Rightarrow> string \<Rightarrow> string" where
  "cleanDirectTranslationResponse response original =
     (let result = foldl (\<lambda>result pattern. removePrefixPattern pattern result)
                     response prefixPatterns;
          lines = Split result CHR ''\<newline>'';
          result' = (case findStart lines 0 of
                       None \<Rightarrow> result
                     | Some startIndex \<Rightarrow>
                         if startIndex > 0 then Join (drop startIndex lines) ''\<newline>''
                         else result)
      in TrimSpace result')"

text \<open>TranslateTemplateDirect, on any provider, and TranslateTemplate.\<close>

definition TranslateTemplateDirect ::
  "string \<Rightarrow> string \<Rightarrow> string \<Rightarrow> Translator \<Rightarrow> world \<Rightarrow> string result \<times> world" where
  "TranslateTemplateDirect content sourceLang targetLang provider w =
     (case provider (directPrompt targetLang content) sourceLang targetLang w of
        (Fail e, w') \<Rightarrow>
          (Fail (Wrap e ''failed to translate template using direct approach''), w')
      | (Panicked p, w') \<Rightarrow> (Panicked p, w')
      | (Ok result, w') \<Rightarrow> (Ok (cleanDirectTranslationResponse result content), w'))"

definition TranslateTemplate ::
  "env \<Rightarrow> string \<Rightarrow> string \<Rightarrow> string \<Rightarrow> string \<Rightarrow> string \<Rightarrow> world \<Rightarrow> string result \<times> world" where
  "TranslateTemplate env content sourceLang targetLang providerType model w =
     (case NewProvider env providerType (getAPIKey env providerType) model of
        Fail e \<Rightarrow> (Fail e, w)
      | Panicked p \<Rightarrow> (Panicked p, w)
      | Ok provider \<Rightarrow>
          TranslateTemplateDirect content sourceLang targetLang (Translate env provider) w)"

section \<open>Document translation, segment by segment\<close>

text \<open>
  The loop of TranslateDocument over the sections: a section that shouldTranslate
  accepts goes to the provider, every other one is kept as it is.
\<close>

fun translateSections ::
  "Translator \<Rightarrow> string \<Rightarrow> string \<Rightarrow> string list \<Rightarrow> string list \<Rightarrow> world
     \<Rightarrow> string list result \<times> world" where
  "translateSections provider sourceLang targetLang [] translatedSections w =
     (Ok translatedSections, w)"
| "translateSections provider sourceLang targetLang (section # sections) translatedSections w =
     (if shouldTranslate section then
        (case provider section sourceLang targetLang w of
           (Fail e, w') \<Rightarrow> (Fail (Wrap e ''failed to translate section''), w')
         | (Panicked p, w') \<Rightarrow> (Panicked p, w')
         | (Ok translated, w') \<Rightarrow>
             translateSections provider sourceLang targetLang sections
               (translatedSections @ [translated]) w')
      else translateSections provider sourceLang targetLang sections
             (translatedSections @ [section]) w)"

text \<open>TranslateDocument behind the construction of the provider, on any provider.\<close>

definition TranslateDocumentWith ::
  "Translator \<Rightarrow> string \<Rightarrow> string \<Rightarrow> string \<Rightarrow> world \<Rightarrow> string result \<times> world" where
  "TranslateDocumentWith provider content sourceLang targetLang w =
     (case translateSections provider sourceLang targetLang (extractSections content) [] w of
        (Fail e, w') \<Rightarrow> (Fail e, w')
      | (Panicked p, w') \<Rightarrow> (Panicked p, w')
      | (Ok translatedSections, w') \<Rightarrow> (Ok (Join translatedSections ''\<newline>''), w'))"

definition TranslateDocument ::
  "env \<Rightarrow> string \<Rightarrow> string \<Rightarrow> string \<Rightarrow> string \<Rightarrow> string \<Rightarrow> world \<Rightarrow> string result \<times> world" where
  "TranslateDocument env content sourceLang targetLang providerType model w =
     (case NewProvider env providerType (getAPIKey env providerType) model of
        Fail e \<Rightarrow> (Fail e, w)
      | Panicked p \<Rightarrow> (Panicked p, w)
      | Ok provider \<Rightarrow>
          TranslateDocumentWith (Translate env provider) content sourceLang targetLang w)"

section \<open>Template translation (package render)\<close>

text \<open>shouldSkipTranslation: true when both files can be stat'ed and the translation is
  not older than the original.\<close>

definition shouldSkipTranslation :: "world \<Rightarrow> string \<Rightarrow> string \<Rightarrow> bool" where
  "shouldSkipTranslation w originalPath translatedPath =
     (case Stat w translatedPath of
        Inl err \<Rightarrow> False
      | Inr translatedTime \<Rightarrow>
          (case Stat w originalPath of
             Inl err \<Rightarrow> False
           | Inr originalTime \<Rightarrow>
               translatedTime > originalTime \<or> translatedTime = originalTime))"

text \<open>translateSingleTemplate: read, compute the target, perhaps skip, translate, write.\<close>

definition translateSingleTemplate ::
  "env \<Rightarrow> string \<Rightarrow> string \<Rightarrow> string \<Rightarrow> string \<Rightarrow> world \<Rightarrow> unit result \<times> world" where
  "translateSingleTemplate env filePath targetLang provider model w =
     (case ReadFile w filePath of
        Inl err \<Rightarrow> (Fail (Wrap err (''unable to read file: '' @ filePath)), w)
      | Inr content \<Rightarrow>
          (let translatedPath = generateTranslatedPath filePath targetLang in
           if shouldSkipTranslation w filePath translatedPath
           then (Ok (),
                 printOut (''Skipping '' @ translatedPath @ '' (translation is up to date)\<newline>'') w)
           else
             (case TranslateTemplate env content ''en'' targetLang provider model
                     (printOut (''Translating '' @ filePath @ '' to '' @ targetLang @ ''...\<newline>'') w) of
                (Fail err, w') \<Rightarrow>
                  (Fail (Wrap err (''translation failed for file: '' @ filePath)), w')
              | (Panicked p, w') \<Rightarrow> (Panicked p, w')
              | (Ok translatedContent, w') \<Rightarrow>
                  (case WriteFile translatedPath translatedContent w' of
                     (Some err, w'') \<Rightarrow>
                       (Fail (Wrap err (''unable to write translated file: '' @ translatedPath)),
                        w'')
                   | (None, w'') \<Rightarrow>
                       (Ok (), printOut (''Generated: '' @ translatedPath @ ''\<newline>'') w'')))))"

text \<open>The test both directory walks apply to an entry.\<close>

definition walkSelects :: "string \<times> bool \<Rightarrow> bool" where
  "walkSelects entry =
     (case entry of (p, isDir) \<Rightarrow> \<not> isDir \<and> HasSuffix p ''.md'' \<and> isTemplateFile p)"

definition getFilesToTranslate :: "env \<Rightarrow> world \<Rightarrow> string \<Rightarrow> string list result" where
  "getFilesToTranslate env w path =
     (case files w path of
        None \<Rightarrow>
          Fail (Wrap (Errorf (''stat '' @ path @ '': no such file or directory''))
                  (''path does not exist: '' @ path))
      | Some info \<Rightarrow>
          if fileIsDir info then
            (case Walk env w path of
               Inl err \<Rightarrow> Fail (Wrap err (''error walking directory: '' @ path))
             | Inr entries \<Rightarrow> Ok (map fst (filter walkSelects entries)))
          else if HasSuffix path ''.md'' \<and> isTemplateFile path then Ok [path]
          else Fail (Errorf (''file is not a translatable template: '' @ path)))"

fun walkTemplateDirs :: "env \<Rightarrow> world \<Rightarrow> string list \<Rightarrow> string list \<Rightarrow> string list result" where
  "walkTemplateDirs env w [] found = Ok found"
| "walkTemplateDirs env w (dir # dirs) found =
     (case files w dir of
        None \<Rightarrow> walkTemplateDirs env w dirs found
      | Some info \<Rightarrow>
          (case Walk env w dir of
             Inl err \<Rightarrow> Fail (Wrap err (''error walking directory: '' @ dir))
           | Inr entries \<Rightarrow>
               walkTemplateDirs env w dirs (found @ map fst (filter walkSelects entries))))"

definition getAllTemplateFiles :: "env \<Rightarrow> world \<Rightarrow> string list result" where
  "getAllTemplateFiles env w =
     walkTemplateDirs env w [''policies'', ''procedures'', ''narratives''] []"

text \<open>The two nested loops of TranslateTemplates: the first error ends both.\<close>

fun translateLanguages ::
  "env \<Rightarrow> string \<Rightarrow> string list \<Rightarrow> string \<Rightarrow> string \<Rightarrow> world \<Rightarrow> unit result \<times> world" where
  "translateLanguages env file [] provider model w = (Ok (), w)"
| "translateLanguages env file (lang # languages) provider model w =
     (case translateSingleTemplate env file lang provider model w of
        (Fail err, w') \<Rightarrow>
          (Fail (Wrap err (''failed to translate '' @ file @ '' to '' @ lang)), w')
      | (Panicked p, w') \<Rightarrow> (Panicked p, w')
      | (Ok u, w') \<Rightarrow> translateLanguages env file languages provider model w')"

fun translateFiles ::
  "env \<Rightarrow> string list \<Rightarrow> string list \<Rightarrow> string \<Rightarrow> string \<Rightarrow> world \<Rightarrow> unit result \<times> world" where
  "translateFiles env [] languages provider model w = (Ok (), w)"
| "translateFiles env (file # filesToTranslate) languages provider model w =
     (case translateLanguages env file languages provider model w of
        (Fail err, w') \<Rightarrow> (Fail err, w')
      | (Panicked p, w') \<Rightarrow> (Panicked p, w')
      | (Ok u, w') \<Rightarrow> translateFiles env filesToTranslate languages provider model w')"

text \<open>The decimal digits of a number, for the verb \<open>%d\<close>.\<close>

fun showNat :: "nat \<Rightarrow> string" where
  "showNat n =
     (if n < 10 then [char_of (48 + n)]
      else showNat (n div 10) @ [char_of (48 + n mod 10)])"

definition TranslateTemplates :: "env \<Rightarrow> string \<Rightarrow> string \<Rightarrow> world \<Rightarrow> unit result \<times> world" where
  "TranslateTemplates env path provider w =
     (case Translation env of
        None \<Rightarrow> (Fail (Errorf ''translation not enabled in comply.yml''), w)
      | Some cfg \<Rightarrow>
          if \<not> cfgEnabled cfg
          then (Fail (Errorf ''translation not enabled in comply.yml''), w)
          else
            (let languages = cfgLanguages cfg;
                 providerToUse = (if provider = [] then cfgProvider cfg else provider);
                 modelToUse = cfgModel cfg
             in if length languages = 0
                then (Fail (Errorf ''no languages configured for translation''), w)
                else if providerToUse = []
                then (Fail (Errorf ''no translation provider specified''), w)
                else
                  (case (if path \<noteq> []
                         then (case getFilesToTranslate env w path of
                                 Fail err \<Rightarrow>
                                   Fail (Wrap err (''unable to get files from path: '' @ path))
                               | r \<Rightarrow> r)
                         else (case getAllTemplateFiles env w of
                                 Fail err \<Rightarrow>
                                   Fail (Wrap err ''unable to get all template files'')
                               | r \<Rightarrow> r)) of
                     Fail err \<Rightarrow> (Fail err, w)
                   | Panicked p \<Rightarrow> (Panicked p, w)
                   | Ok filesToTranslate \<Rightarrow>
                       if length filesToTranslate = 0
                       then (Ok (), printOut ''No files to translate\<newline>'' w)
                       else
                         (case translateFiles env filesToTranslate languages providerToUse
                                 modelToUse
                                 (printOut (''Translating '' @ showNat (length filesToTranslate)
                                    @ '' files to languages: '' @ Join languages '', ''
                                    @ ''\<newline>'') w) of
                            (Fail err, w') \<Rightarrow> (Fail err, w')
                          | (Panicked p, w') \<Rightarrow> (Panicked p, w')
                          | (Ok u, w') \<Rightarrow>
                              (Ok (),
                               printOut ''Template translation completed successfully\<newline>'' w')))))"

section \<open>Translation for rendering (package render)\<close>

text \<open>
  Modelled from the spec: isNewer and recordModified are not among the sources. The spec
  (4.5): isNewer "returns true unless this exact path was previously recorded with a
  modification time \<ge> the given one"; recordModified "unconditionally stores/overwrites
  the record for that path".
\<close>

definition isNewer :: "world \<Rightarrow> string \<Rightarrow> int \<Rightarrow> bool" where
  "isNewer w path t = (case subjects w path of None \<Rightarrow> True | Some previous \<Rightarrow> previous < t)"

definition recordModified :: "string \<Rightarrow> int \<Rightarrow> world \<Rightarrow> world" where
  "recordModified path t w =
     w\<lparr>subjects := (subjects w)(path \<mapsto> t), trace := trace w @ [RecordModified path t]\<rparr>"

text \<open>
  Modelled from the spec: preprocessDoc is not among the sources. The spec (4.4, step 3):
  the preprocessing step produces "an intermediate markdown file", here the text
  \<open>preprocessOut\<close> written to the path it is given.
\<close>

definition preprocessDoc ::
  "env \<Rightarrow> renderData \<Rightarrow> Document \<Rightarrow> string \<Rightarrow> world \<Rightarrow> error option \<times> world" where
  "preprocessDoc env data doc path w =
     (case preprocessOut env data doc of
        Inl err \<Rightarrow> (Some err, w)
      | Inr text \<Rightarrow> WriteFile path text w)"

text \<open>
  Modelled from the spec: pandoc is not among the sources. The spec (1): the renderer "is
  called as an opaque external process"; here the call is an effect of its own and
  \<open>pandocOut\<close> is the error it sends on the channel, None for success. The files it
  writes are not modelled.
\<close>

definition pandoc :: "env \<Rightarrow> string \<Rightarrow> world \<Rightarrow> error option \<times> world" where
  "pandoc env outputFilename w =
     (pandocOut env w outputFilename, w\<lparr>trace := trace w @ [Pandoc outputFilename]\<rparr>)"

text \<open>runPandoc returns what arrives on its channel: the renderer's answer for a PDF,
  nil at once for HTML, an error for any other output name.\<close>

definition runPandoc :: "env \<Rightarrow> string list \<Rightarrow> world \<Rightarrow> error option \<times> world" where
  "runPandoc env args w =
     (if length args \<ge> 2 \<and> HasSuffix (args ! (length args - 2)) ''.pdf'' then
        (let outputFile = Base (args ! (length args - 2))
         in pandoc env (TrimSuffix outputFile ''.pdf'') w)
      else if length args \<ge> 2 \<and> HasSuffix (args ! (length args - 2)) ''.html'' then
        (None, w)
      else (Some (Errorf ''unsupported pandoc output format''), w))"

definition generateTranslatedPDF ::
  "env \<Rightarrow> string \<Rightarrow> string \<Rightarrow> string \<Rightarrow> string \<Rightarrow> world \<Rightarrow> error option \<times> world" where
  "generateTranslatedPDF env mdPath outputDir outputFilename targetLang w =
     (let outputPath = filepathJoin [outputDir, outputFilename @ ''_'' @ targetLang @ ''.pdf''];
          pandocArgs = [''-f'', ''markdown+smart'', ''--toc'', ''-N'',
                        ''--template'', ''templates/default.latex'',
                        ''-o'', outputPath, mdPath]
      in runPandoc env pandocArgs w)"

definition generateTranslatedHTML ::
  "env \<Rightarrow> string \<Rightarrow> string \<Rightarrow> string \<Rightarrow> string \<Rightarrow> world \<Rightarrow> error option \<times> world" where
  "generateTranslatedHTML env mdPath outputDir outputFilename targetLang w =
     (let outputPath = filepathJoin [outputDir, outputFilename @ ''_'' @ targetLang @ ''.html''];
          pandocArgs = [''-f'', ''markdown+smart'', ''--toc'', ''-N'', ''-s'',
                        ''-o'', outputPath, mdPath]
      in runPandoc env pandocArgs w)"

text \<open>The end of renderTranslatedDocument, after the renderer has succeeded: both
  markdown files are removed and the result is printed.\<close>

definition finishRendered ::
  "env \<Rightarrow> Document \<Rightarrow> string \<Rightarrow> string \<Rightarrow> string \<Rightarrow> string \<Rightarrow> string \<Rightarrow> world \<Rightarrow> world" where
  "finishRendered env doc outputDir targetLang format preprocessedPath translatedPath w =
     (let w' = osRemove translatedPath (osRemove preprocessedPath w);
          rel = (case Rel env ''.'' (FullPath doc) of Inl err \<Rightarrow> FullPath doc | Inr r \<Rightarrow> r);
          outputFile = OutputFilename doc @ ''_'' @ targetLang
                         @ (if format = ''pdf'' then ''.pdf'' else ''.html'')
      in printOut (rel @ '' -> '' @ filepathJoin [outputDir, outputFile]
                     @ '' ('' @ targetLang @ '')\<newline>'') w')"

text \<open>renderTranslatedDocument.\<close>

definition renderTranslatedDocument ::
  "env \<Rightarrow> renderData \<Rightarrow> Document \<Rightarrow> string \<Rightarrow> string \<Rightarrow> string \<Rightarrow> string \<Rightarrow> world
     \<Rightarrow> unit result \<times> world" where
  "renderTranslatedDocument env data doc outputDir targetLang provider format w =
     (if \<not> isNewer w (FullPath doc) (ModifiedAt doc) then (Ok (), w)
      else
        (let w1 = recordModified (FullPath doc) (ModifiedAt doc) w;
             outputFilename = OutputFilename doc;
             preprocessedPath = filepathJoin [outputDir, outputFilename @ ''.md'']
         in case preprocessDoc env data doc preprocessedPath w1 of
              (Some err, w2) \<Rightarrow>
                (Fail (Wrap err ''unable to preprocess document for translation''), w2)
            | (None, w2) \<Rightarrow>
                (case ReadFile w2 preprocessedPath of
                   Inl err \<Rightarrow> (Fail (Wrap err ''unable to read preprocessed document''), w2)
                 | Inr content \<Rightarrow>
                     (case TranslateDocument env content ''en'' targetLang provider []
                             (printOut (''Translating '' @ Name doc @ '' to '' @ targetLang
                                          @ ''...\<newline>'') w2) of
                        (Fail err, w3) \<Rightarrow>
                          (Fail (Wrap err (''translation failed for document: '' @ Name doc)), w3)
                      | (Panicked p, w3) \<Rightarrow> (Panicked p, w3)
                      | (Ok translatedContent, w3) \<Rightarrow>
                          (let translatedPath =
                                 filepathJoin [outputDir,
                                               outputFilename @ ''_'' @ targetLang @ ''.md'']
                           in case WriteFile translatedPath translatedContent w3 of
                                (Some err, w4) \<Rightarrow>
                                  (Fail (Wrap err ''unable to write translated markdown''), w4)
                              | (None, w4) \<Rightarrow>
                                  (case (if format = ''pdf''
                                         then generateTranslatedPDF env translatedPath outputDir
                                                outputFilename targetLang w4
                                         else if format = ''html''
                                         then generateTranslatedHTML env translatedPath outputDir
                                                outputFilename targetLang w4
                                         else (None, w4)) of
                                     (Some err, w5) \<Rightarrow> (Fail err, w5)
                                   | (None, w5) \<Rightarrow>
                                       (Ok (),
                                        finishRendered env doc outputDir targetLang format
                                          preprocessedPath translatedPath w5)))))))"

section \<open>The batch drivers (package render)\<close>

text \<open>getRenderData: the four readers in order, the first error wrapped.\<close>

definition getRenderData :: "env \<Rightarrow> error + renderData" where
  "getRenderData env =
     (case ReadPolicies env of
        Inl err \<Rightarrow> Inl (Wrap err ''unable to read policies'')
      | Inr policies \<Rightarrow>
          (case ReadProcedures env of
             Inl err \<Rightarrow> Inl (Wrap err ''unable to read procedures'')
           | Inr procedures \<Rightarrow>
               (case ReadNarratives env of
                  Inl err \<Rightarrow> Inl (Wrap err ''unable to read narratives'')
                | Inr narratives \<Rightarrow>
                    (case ReadStandards env of
                       Some err \<Rightarrow> Inl (Wrap err ''unable to read standards'')
                     | None \<Rightarrow>
                         Inr \<lparr>Policies = policies, Procedures = procedures,
                              Narratives = narratives\<rparr>))))"

text \<open>The conversion of a procedure to a document inside the loops.\<close>

definition procedureDocument :: "Procedure \<Rightarrow> Document" where
  "procedureDocument proc =
     \<lparr>Name = procName proc, Body = procBody proc, FullPath = procFullPath proc,
      OutputFilename = procOutputFilename proc, ModifiedAt = procModifiedAt proc\<rparr>"

text \<open>
  One of the three loops of a batch driver: \<open>what\<close> is the message of the loop in front
  of the document's name. On an error the driver sends it and returns, so the rest of the
  list, and the loops after this one, are not run.
\<close>

fun renderDocuments ::
  "env \<Rightarrow> renderData \<Rightarrow> Document list \<Rightarrow> string \<Rightarrow> string \<Rightarrow> string \<Rightarrow> string \<Rightarrow> string
     \<Rightarrow> world \<Rightarrow> unit result \<times> world" where
  "renderDocuments env data [] what outputDir targetLang provider format w = (Ok (), w)"
| "renderDocuments env data (doc # docs) what outputDir targetLang provider format w =
     (case renderTranslatedDocument env data doc outputDir targetLang provider format w of
        (Fail err, w') \<Rightarrow> (Fail (Wrap err (what @ Name doc)), w')
      | (Panicked p, w') \<Rightarrow> (Panicked p, w')
      | (Ok u, w') \<Rightarrow>
          renderDocuments env data docs what outputDir targetLang provider format w')"

text \<open>
  The body both drivers share; the result is the value sent on errOutputCh (\<open>Ok ()\<close>
  for nil). The parameter live is not read by the source.
\<close>

definition translatedBatch ::
  "env \<Rightarrow> string \<Rightarrow> string \<Rightarrow> string \<Rightarrow> string \<Rightarrow> string \<Rightarrow> string \<Rightarrow> string \<Rightarrow> world
     \<Rightarrow> unit result \<times> world" where
  "translatedBatch env format dataMsg suffix outputDir targetLang provider banner w =
     (let w0 = printOut banner w in
      case getRenderData env of
        Inl err \<Rightarrow> (Fail (Wrap err dataMsg), w0)
      | Inr data \<Rightarrow>
          (case renderDocuments env data (Policies data)
                  (''unable to render translated policy'' @ suffix @ '': '')
                  outputDir targetLang provider format w0 of
             (Ok u, w1) \<Rightarrow>
               (case renderDocuments env data (map procedureDocument (Procedures data))
                       (''unable to render translated procedure'' @ suffix @ '': '')
                       outputDir targetLang provider format w1 of
                  (Ok u', w2) \<Rightarrow>
                    renderDocuments env data (Narratives data)
                      (''unable to render translated narrative'' @ suffix @ '': '')
                      outputDir targetLang provider format w2
                | r \<Rightarrow> r)
           | r \<Rightarrow> r))"

definition pdfTranslated ::
  "env \<Rightarrow> string \<Rightarrow> string \<Rightarrow> string \<Rightarrow> bool \<Rightarrow> world \<Rightarrow> unit result \<times> world" where
  "pdfTranslated env outputDir targetLang provider live w =
     translatedBatch env ''pdf'' ''unable to get render data for translation'' []
       outputDir targetLang provider
       (''Generating translated PDF documents ('' @ targetLang @ '')...\<newline>'') w"

definition htmlTranslated ::
  "env \<Rightarrow> string \<Rightarrow> string \<Rightarrow> string \<Rightarrow> bool \<Rightarrow> world \<Rightarrow> unit result \<times> world" where
  "htmlTranslated env outputDir targetLang provider live w =
     translatedBatch env ''html'' ''unable to get render data for HTML translation'' '' HTML''
       outputDir targetLang provider
       (''Generating translated HTML documents ('' @ targetLang @ '')...\<newline>'') w"

section \<open>Notions the claims are stated with\<close>


text \<open>The texts written to files among the effects, and the renderer runs.\<close>

fun writtenTexts :: "event list \<Rightarrow> string list" where
  "writtenTexts [] = []"
| "writtenTexts (Write path content # es) = content # writtenTexts es"
| "writtenTexts (HttpPost req # es) = writtenTexts es"
| "writtenTexts (Remove path # es) = writtenTexts es"
| "writtenTexts (RecordModified path t # es) = writtenTexts es"
| "writtenTexts (Pandoc name # es) = writtenTexts es"

fun pandocRuns :: "event list \<Rightarrow> string list" where
  "pandocRuns [] = []"
| "pandocRuns (Pandoc name # es) = name # pandocRuns es"
| "pandocRuns (HttpPost req # es) = pandocRuns es"
| "pandocRuns (Write path content # es) = pandocRuns es"
| "pandocRuns (Remove path # es) = pandocRuns es"
| "pandocRuns (RecordModified path t # es) = pandocRuns es"

text \<open>
  A later world that differs from an earlier one by more effects at most: the effects so
  far are still there, in order, and the staleness map is the same.
\<close>

definition appends :: "world \<Rightarrow> world \<Rightarrow> bool" where
  "appends w w' = ((\<exists>evs. trace w' = trace w @ evs) \<and> subjects w' = subjects w)"

text \<open>A text that neither starts nor ends with a white-space rune.\<close>

definition trimmed :: "string \<Rightarrow> bool" where
  "trimmed s = (firstSpaceLen s = 0 \<and> lastSpaceLen s = 0)"

text \<open>A provider that gives every text back as it is.\<close>

definition identityProvider :: Translator where
  "identityProvider text sourceLang targetLang w = (Ok text, w)"

section \<open>Concrete inputs for the examples\<close>

text \<open>Lower case for ASCII letters, the ToLower of the examples.\<close>

definition asciiLower :: "string \<Rightarrow> string" where
  "asciiLower s =
     map (\<lambda>c. if byteIn CHR ''A'' CHR ''Z'' c then char_of (of_char c + (32::nat)) else c) s"

text \<open>
  An environment of the examples: every URL is well formed, the provider answers as
  \<open>http\<close> says, the decoder decodes as \<open>decode\<close> says, the preprocessor produces \<open>pre\<close>,
  the renderer succeeds, no variable is set and nothing is configured.
\<close>

definition exampleEnv ::
  "(request \<Rightarrow> error + response) \<Rightarrow> (string \<Rightarrow> error + json) \<Rightarrow> (Document \<Rightarrow> error + string)
     \<Rightarrow> env" where
  "exampleEnv http decode pre =
     \<lparr>newRequestError = (\<lambda>url. None),
      httpDo = (\<lambda>w. http),
      jsonUnmarshal = decode,
      ToLower = asciiLower,
      Getenv = (\<lambda>key. []),
      Translation = None,
      Walk = (\<lambda>w path. Inr []),
      Rel = (\<lambda>base target. Inr target),
      ReadPolicies = Inr [],
      ReadProcedures = Inr [],
      ReadNarratives = Inr [],
      ReadStandards = None,
      preprocessOut = (\<lambda>data. pre),
      pandocOut = (\<lambda>w name. None)\<rparr>"

text \<open>A world of the examples: the given files, every path writable, nothing recorded.\<close>

definition exampleWorld :: "(string \<Rightarrow> fsFile option) \<Rightarrow> world" where
  "exampleWorld fs =
     \<lparr>files = fs, writable = (\<lambda>path. True), clock = 100, subjects = (\<lambda>path. None),
      trace = [], stdout = []\<rparr>"

definition plainFile :: "string \<Rightarrow> int \<Rightarrow> fsFile" where
  "plainFile content t =
     \<lparr>fileContent = content, fileModTime = t, fileReadable = True, fileIsDir = False\<rparr>"

text \<open>
  A backend of the examples that answers every Ollama request with the text it was asked
  to translate (the prompt behind the instruction), and a decoder that reads a body as
  the \<open>response\<close> field of an object.
\<close>

definition requestPrompt :: "request \<Rightarrow> string" where
  "requestPrompt req =
     (case reqBody req of
        JObject kv \<Rightarrow>
          (case mapIndex kv ''prompt'' of JString s \<Rightarrow> s | other \<Rightarrow> [])
      | other \<Rightarrow> [])"

definition echoHttp :: "string \<Rightarrow> string \<Rightarrow> request \<Rightarrow> error + response" where
  "echoHttp sourceLang targetLang req =
     Inr \<lparr>StatusCode = 200,
          respBody = drop (length (translatePrompt sourceLang targetLang [])) (requestPrompt req)\<rparr>"

definition responseField :: "string \<Rightarrow> error + json" where
  "responseField body = Inr (JObject [(''response'', JString body)])"

definition echoEnv :: env where
  "echoEnv = exampleEnv (echoHttp ''en'' ''es'') responseField (\<lambda>doc. Inr (Body doc))"

text \<open>A backend of the examples that answers every request with one status and body.\<close>

definition fixedHttp :: "nat \<Rightarrow> string \<Rightarrow> request \<Rightarrow> error + response" where
  "fixedHttp status body req = Inr \<lparr>StatusCode = status, respBody = body\<rparr>"

text \<open>The bodies the examples receive, and a decoder that knows them; any other body
  is not JSON for it.\<close>

definition quoted :: "string \<Rightarrow> string" where
  "quoted s = CHR 0x22 # s @ [CHR 0x22]"

definition openAIBody :: string where
  "openAIBody =
     ''{'' @ quoted ''choices'' @ '':[{'' @ quoted ''message'' @ '':{'' @ quoted ''content''
     @ '':'' @ quoted '' # Parche '' @ ''}}]}''"

definition numberBody :: string where
  "numberBody = ''{'' @ quoted ''response'' @ '':5}''"

definition exampleDecode :: "string \<Rightarrow> error + json" where
  "exampleDecode body =
     (if body = openAIBody
      then Inr (JObject [(''choices'',
                  JArray [JObject [(''message'',
                            JObject [(''content'', JString '' # Parche '')])]])])
      else if body = numberBody then Inr (JObject [(''response'', JNumber 5)])
      else if body = ''{}'' then Inr (JObject [])
      else Inl (Errorf ''invalid character looking for beginning of value''))"

text \<open>An environment of the examples whose backend answers with one status and body.\<close>

definition fixedEnv :: "nat \<Rightarrow> string \<Rightarrow> env" where
  "fixedEnv status body = exampleEnv (fixedHttp status body) exampleDecode (\<lambda>doc. Inr (Body doc))"

text \<open>Worlds of the examples around the template \<open>policies/patch.md\<close>: with an
  unreadable source and a newer translation, with a readable source and a newer
  translation, with no translation yet, and with no translation and nothing writable.\<close>

definition unreadableFile :: "string \<Rightarrow> int \<Rightarrow> fsFile" where
  "unreadableFile content t =
     \<lparr>fileContent = content, fileModTime = t, fileReadable = False, fileIsDir = False\<rparr>"

definition worldUnreadable :: world where
  "worldUnreadable =
     exampleWorld (map_of [(''policies/patch.md'', unreadableFile ''# Patch'' 5),
                           (''policies/patch.es.md'', plainFile ''# Parche'' 9)])"

definition worldUpToDate :: world where
  "worldUpToDate =
     exampleWorld (map_of [(''policies/patch.md'', plainFile ''# Patch'' 5),
                           (''policies/patch.es.md'', plainFile ''# Parche'' 9)])"

definition worldUntranslated :: world where
  "worldUntranslated = exampleWorld (map_of [(''policies/patch.md'', plainFile ''# Patch'' 5)])"


text \<open>Documents and environments of the examples for the rendering path: two policies,
  a procedure and a narrative, a backend that echoes, and a preprocessor that fails for
  the document of one name.\<close>

definition docAccess :: Document where
  "docAccess =
     \<lparr>Name = ''Access Policy'',
      Body = ''---\<newline>name: Access Policy\<newline>---\<newline>\<newline># Purpose\<newline>a. text.'',
      FullPath = ''/repo/policies/access.md'',
      OutputFilename = ''access'',
      ModifiedAt = 7\<rparr>"

definition docAsset :: Document where
  "docAsset =
     \<lparr>Name = ''Asset Policy'',
      Body = ''# Assets'',
      FullPath = ''/repo/policies/asset.md'',
      OutputFilename = ''asset'',
      ModifiedAt = 8\<rparr>"

definition procOffboard :: Procedure where
  "procOffboard =
     \<lparr>procName = ''Offboarding'',
      procBody = ''# Steps'',
      procFullPath = ''/repo/procedures/offboarding.md'',
      procOutputFilename = ''offboarding'',
      procModifiedAt = 9\<rparr>"

definition docOverview :: Document where
  "docOverview =
     \<lparr>Name = ''Overview'',
      Body = ''# Overview'',
      FullPath = ''/repo/narratives/overview.md'',
      OutputFilename = ''overview'',
      ModifiedAt = 3\<rparr>"

definition dataExample :: renderData where
  "dataExample = \<lparr>Policies = [docAccess, docAsset], Procedures = [], Narratives = []\<rparr>"

definition dataBatch :: renderData where
  "dataBatch =
     \<lparr>Policies = [docAccess, docAsset], Procedures = [procOffboard],
      Narratives = [docOverview]\<rparr>"

definition batchEnv :: env where
  "batchEnv = echoEnv\<lparr>ReadPolicies := Inr [docAccess, docAsset]\<rparr>"

definition brokenPreprocess :: "string \<Rightarrow> Document \<Rightarrow> error + string" where
  "brokenPreprocess name doc =
     (if Name doc = name then Inl (Errorf ''template: unexpected EOF'')
      else Inr (Body doc))"

definition brokenBatchEnv :: "string \<Rightarrow> env" where
  "brokenBatchEnv name =
     (exampleEnv (echoHttp ''en'' ''es'') responseField (brokenPreprocess name))
       \<lparr>ReadPolicies := Inr [docAccess, docAsset],
        ReadProcedures := Inr [procOffboard],
        ReadNarratives := Inr [docOverview]\<rparr>"

text \<open>A world of the examples in which the first policy is already recorded at its
  modification time.\<close>

definition worldRecorded :: world where
  "worldRecorded =
     (exampleWorld (\<lambda>path. None))
       \<lparr>subjects := (\<lambda>path. if path = ''/repo/policies/access.md'' then Some 7 else None)\<rparr>"

text \<open>A configuration of the examples for template translation of one file to two
  languages, and a world where only the first language's target can be written.\<close>

definition templateEnv :: "nat \<Rightarrow> string \<Rightarrow> env" where
  "templateEnv status body =
     (fixedEnv status body)
       \<lparr>Translation := Some \<lparr>cfgEnabled = True, cfgLanguages = [''es'', ''fr''],
                               cfgProvider = ''openai'', cfgModel = []\<rparr>\<rparr>"

definition worldOnlySpanish :: world where
  "worldOnlySpanish = worldUntranslated\<lparr>writable := (\<lambda>path. path = ''policies/patch.es.md'')\<rparr>"

section \<open>Lemmas\<close>

lemma Split_not_Nil: "Split s sep \<noteq> []"
  by (induction s) (auto split: list.splits)

lemma Join_Cons: "ys \<noteq> [] \<Longrightarrow> Join (x # ys) sep = x @ sep @ Join ys sep"
  by (cases ys) auto

lemma Join_Split: "Join (Split s sep) [sep] = s"
proof (induction s)
  case Nil
  show ?case by simp
next
  case (Cons c cs)
  obtain p ps where sp: "Split cs sep = p # ps"
    using Split_not_Nil [of cs sep] by (cases "Split cs sep") auto
  show ?case
  proof (cases "c = sep")
    case True
    then show ?thesis using Cons.IH by (simp add: Join_Cons Split_not_Nil)
  next
    case False
    have "Join ((c # p) # ps) [sep] = c # Join (p # ps) [sep]"
      by (cases ps) auto
    with False sp Cons.IH show ?thesis by simp
  qed
qed

lemma Join_append:
  "xs \<noteq> [] \<Longrightarrow> ys \<noteq> [] \<Longrightarrow> Join (xs @ ys) sep = Join xs sep @ sep @ Join ys sep"
proof (induction xs)
  case Nil
  then show ?case by simp
next
  case (Cons x xs)
  show ?case
  proof (cases "xs = []")
    case True
    with Cons.prems show ?thesis by (simp add: Join_Cons)
  next
    case False
    with Cons show ?thesis by (simp add: Join_Cons)
  qed
qed

text \<open>Joining a run of pieces first and the whole afterwards gives the join of all pieces.\<close>

lemma Join_flush:
  assumes "cur \<noteq> []"
  shows "Join (secs @ [Join cur sep] @ rest) sep = Join (secs @ cur @ rest) sep"
proof -
  have mid: "Join ([Join cur sep] @ rest) sep = Join (cur @ rest) sep"
  proof (cases "rest = []")
    case True
    then show ?thesis by simp
  next
    case False
    with assms show ?thesis by (simp add: Join_Cons Join_append)
  qed
  show ?thesis
  proof (cases "secs = []")
    case True
    with mid show ?thesis by simp
  next
    case False
    have "Join (secs @ ([Join cur sep] @ rest)) sep
          = Join secs sep @ sep @ Join ([Join cur sep] @ rest) sep"
      using False by (intro Join_append) auto
    also have "\<dots> = Join secs sep @ sep @ Join (cur @ rest) sep"
      using mid by simp
    also have "\<dots> = Join (secs @ (cur @ rest)) sep"
      using False assms by (intro Join_append [symmetric]) auto
    finally show ?thesis by simp
  qed
qed

lemma extractLoop_Join:
  "Join (extractLoop lines secs cur) ''\<newline>'' = Join (secs @ cur @ lines) ''\<newline>''"
proof (induction lines arbitrary: secs cur)
  case Nil
  show ?case using Join_flush [of cur secs "''\<newline>''" "[]"] by auto
next
  case (Cons line lines)
  show ?case
  proof (cases "line = []")
    case True
    show ?thesis
    proof (cases "cur = []")
      case True
      with \<open>line = []\<close> Cons.IH [of "secs @ [line]" "[]"] show ?thesis by simp
    next
      case False
      have "Join (extractLoop (line # lines) secs cur) ''\<newline>''
            = Join (secs @ [Join cur ''\<newline>''] @ ([line] @ lines)) ''\<newline>''"
        using False \<open>line = []\<close> Cons.IH [of "(secs @ [Join cur ''\<newline>'']) @ [line]" "[]"]
        by simp
      also have "\<dots> = Join (secs @ cur @ ([line] @ lines)) ''\<newline>''"
        using False by (rule Join_flush)
      finally show ?thesis by simp
    qed
  next
    case False
    with Cons.IH [of secs "cur @ [line]"] show ?thesis by simp
  qed
qed

lemma Split_no_sep: "sep \<notin> set s \<Longrightarrow> Split s sep = [s]"
  by (induction s) auto

lemma Split_append_sep: "Split (a @ sep # b) sep = Split a sep @ Split b sep"
proof (induction a)
  case Nil
  show ?case by simp
next
  case (Cons c a)
  obtain p ps where sp: "Split a sep = p # ps"
    using Split_not_Nil [of a sep] by (cases "Split a sep") auto
  with Cons show ?case by simp
qed

lemma cleanLoop_append:
  "cleanLoop r (es @ es') out = cleanLoop r es' (cleanLoop r es out)"
  by (induction es arbitrary: out) auto

lemma Join_snoc: "Join (S @ [n]) sep = (if S = [] then n else Join S sep @ sep @ n)"
  using Join_append [of S "[n]" sep] by auto

text \<open>Cleaning a path that ends in a plain name keeps the name as the last element.\<close>

lemma Clean_snoc:
  assumes "CHR ''/'' \<notin> set n" "n \<noteq> []" "n \<noteq> ''.''" "n \<noteq> ''..''"
  shows "\<exists>p. Clean (d @ ''/'' @ n) = p @ n \<and> (p = [] \<or> last p = CHR ''/'')"
proof -
  define r where "r = (hd (d @ ''/'' @ n) = CHR ''/'')"
  define S where "S = cleanLoop r (Split d CHR ''/'') []"
  define root where "root = (if r then ''/'' else [])"
  have sp: "Split (d @ ''/'' @ n) CHR ''/'' = Split d CHR ''/'' @ [n]"
    using Split_append_sep [of d "CHR ''/''" n] assms(1) by (simp add: Split_no_sep)
  have out: "cleanLoop r (Split (d @ ''/'' @ n) CHR ''/'') [] = S @ [n]"
    unfolding sp cleanLoop_append S_def using assms by simp
  have cl: "Clean (d @ ''/'' @ n) = root @ Join (S @ [n]) ''/''"
    unfolding Clean_def Let_def r_def [symmetric] out root_def by simp
  show ?thesis
  proof (cases "S = []")
    case True
    with cl have "Clean (d @ ''/'' @ n) = root @ n" by simp
    moreover have "root = [] \<or> last root = CHR ''/''" by (simp add: root_def)
    ultimately show ?thesis by blast
  next
    case False
    with cl have "Clean (d @ ''/'' @ n) = (root @ Join S ''/'' @ ''/'') @ n"
      by (simp add: Join_snoc)
    moreover have "last (root @ Join S ''/'' @ ''/'') = CHR ''/''" by simp
    ultimately show ?thesis by blast
  qed
qed

lemma Split_two_tail:
  assumes "sep \<notin> set t" "sep \<notin> set e"
  shows "Split (a @ sep # t @ sep # e) sep = Split a sep @ [t, e]"
  using Split_append_sep [of a sep "t @ sep # e"] Split_append_sep [of t sep e] assms
  by (simp add: Split_no_sep)

lemma Base_snoc:
  assumes "CHR ''/'' \<notin> set n" "n \<noteq> []" "p = [] \<or> last p = CHR ''/''"
  shows "Base (p @ n) = n"
proof -
  have "last n \<in> set n" using assms(2) by (rule last_in_set)
  then have l: "last n \<noteq> CHR ''/''" using assms(1) by auto
  have strip: "dropWhile (\<lambda>c. c = CHR ''/'') (rev (p @ n)) = rev (p @ n)"
    using l assms(2) by (cases n rule: rev_cases) auto
  have all: "\<forall>x\<in>set (rev n). x \<noteq> CHR ''/''" using assms(1) by auto
  have tk: "takeWhile (\<lambda>c. c \<noteq> CHR ''/'') (rev n @ rev p) = rev n"
  proof (cases "p = []")
    case True
    then show ?thesis using all by simp
  next
    case False
    then obtain q where "p = q @ ''/''" using assms(3) by (metis append_butlast_last_id)
    then show ?thesis using all by (simp add: takeWhile_tail)
  qed
  show ?thesis unfolding Base_def Let_def strip using tk assms(2) by simp
qed


lemma HasPrefix_append: "HasPrefix (p @ s) p"
  by (induction p) auto

lemma HasSuffix_append: "HasSuffix (s @ suf) suf"
  by (simp add: HasSuffix_def HasPrefix_append)

lemma Base_no_slash: "Base f = ''/'' \<or> CHR ''/'' \<notin> set (Base f)"
proof -
  have "CHR ''/'' \<notin> set (takeWhile (\<lambda>c. c \<noteq> CHR ''/'') xs)" for xs
    by (auto dest: set_takeWhileD)
  then show ?thesis by (auto simp: Base_def Let_def)
qed

lemma Ext_shape:
  assumes "CHR ''/'' \<notin> set fn" "Ext fn \<noteq> []"
  shows "\<exists>name e. fn = name @ CHR ''.'' # e \<and> Ext fn = CHR ''.'' # e \<and>
           CHR ''.'' \<notin> set e \<and> TrimSuffix fn (Ext fn) = name"
proof -
  define e where "e = rev (takeWhile (\<lambda>c. c \<noteq> CHR ''.'') (rev fn))"
  define rest where "rest = dropWhile (\<lambda>c. c \<noteq> CHR ''.'') (rev fn)"
  have "\<forall>x\<in>set (rev fn). x \<noteq> CHR ''/''" using assms(1) by auto
  then have "takeWhile (\<lambda>c. c \<noteq> CHR ''/'') (rev fn) = rev fn"
    by (simp only: takeWhile_eq_all_conv)
  then have elem: "rev (takeWhile (\<lambda>c. c \<noteq> CHR ''/'') (rev fn)) = fn"
    by (simp only: rev_rev_ident)
  have dot: "CHR ''.'' \<in> set fn"
    using assms(2) unfolding Ext_def Let_def elem by (auto split: if_splits)
  have ext: "Ext fn = CHR ''.'' # e"
    unfolding Ext_def Let_def elem e_def using dot by simp
  have "rest \<noteq> []" using dot by (simp add: rest_def)
  moreover have "rest \<noteq> [] \<Longrightarrow> hd rest = CHR ''.''"
    unfolding rest_def using hd_dropWhile [of "\<lambda>c. c \<noteq> CHR ''.''" "rev fn"] by simp
  ultimately obtain r where r: "rest = CHR ''.'' # r" by (cases rest) auto
  have "rev fn = rev e @ rest"
    unfolding e_def rest_def by simp
  then have "rev (rev fn) = rev (rev e @ rest)"
    by (rule arg_cong)
  then have fn: "fn = rev r @ CHR ''.'' # e"
    by (simp add: r)
  have nodot: "CHR ''.'' \<notin> set e"
    unfolding e_def by (auto dest: set_takeWhileD)
  have "HasSuffix fn (CHR ''.'' # e)"
    using fn HasSuffix_append [of "rev r" "CHR ''.'' # e"] by simp
  then have "TrimSuffix fn (Ext fn) = rev r"
    unfolding TrimSuffix_def ext using fn by simp
  with fn ext nodot show ?thesis by blast
qed

lemma Join_nonempty: "xs \<noteq> [] \<Longrightarrow> [] \<notin> set xs \<Longrightarrow> Join xs sep \<noteq> []"
proof (cases xs)
  case Nil
  assume "xs \<noteq> []" with Nil show ?thesis by simp
next
  case (Cons x ys)
  assume "[] \<notin> set xs"
  with Cons have "x \<noteq> []" by auto
  then show ?thesis using Cons by (cases ys) auto
qed

lemma cleanLoop_nonempty: "[] \<notin> set out \<Longrightarrow> [] \<notin> set (cleanLoop r es out)"
proof (induction es arbitrary: out)
  case Nil
  then show ?case by simp
next
  case (Cons e es)
  have b: "[] \<notin> set (butlast out)" using Cons.prems by (auto dest: in_set_butlastD)
  have d: "[] \<notin> set (out @ [''..''])" using Cons.prems by simp
  show ?case
  proof (cases "e = [] \<or> e = ''.''")
    case True
    then show ?thesis using Cons.IH [OF Cons.prems] by auto
  next
    case False
    then have e: "[] \<notin> set (out @ [e])" using Cons.prems by auto
    show ?thesis
      using False Cons.IH [OF Cons.prems] Cons.IH [OF b] Cons.IH [OF d] Cons.IH [OF e]
      by (cases r; cases "out = []"; simp del: set_append; blast)
  qed
qed


lemma Clean_nonempty: "Clean path \<noteq> []"
proof -
  have "[] \<notin> set (cleanLoop False (Split path CHR ''/'') [])"
    by (rule cleanLoop_nonempty) simp
  then have "cleanLoop False (Split path CHR ''/'') [] \<noteq> [] \<Longrightarrow>
      Join (cleanLoop False (Split path CHR ''/'') []) ''/'' \<noteq> []"
    by (rule Join_nonempty [rotated])
  then show ?thesis by (auto simp: Clean_def Let_def)
qed

lemma looksLikeTag_nth:
  "(Split a CHR ''.'' @ [t, e]) ! (length (Split a CHR ''.'' @ [t, e]) - 2) = t"
  by (simp add: nth_append)

lemma postJSON_snd:
  "snd (postJSON env req w) =
     (if newRequestError env (reqURL req) = None then w\<lparr>trace := trace w @ [HttpPost req]\<rparr> else w)"
  by (simp add: postJSON_def Let_def split: option.splits sum.splits)

lemma withContent_snd: "snd (withContent f r) = snd r"
  by (cases r; cases "fst r") (auto simp: withContent_def)

lemma Translate_snd:
  "snd (Translate env p text s t w) =
     (if newRequestError env (reqURL (providerRequest p (translatePrompt s t text))) = None
      then w\<lparr>trace := trace w @ [HttpPost (providerRequest p (translatePrompt s t text))]\<rparr>
      else w)"
  by (simp add: Translate_def withContent_snd postJSON_snd)




















lemma translateSections_identity:
  "translateSections identityProvider s t secs acc w = (Ok (acc @ secs), w)"
  by (induction secs arbitrary: acc) (auto simp: identityProvider_def)



lemma pandocRuns_append: "pandocRuns (xs @ ys) = pandocRuns xs @ pandocRuns ys"
  by (induction xs rule: pandocRuns.induct) auto


lemma Translate_Ok_sent:
  assumes "Translate env p text s t w = (Ok r, w')"
  shows "w' = w\<lparr>trace := trace w @ [HttpPost (providerRequest p (translatePrompt s t text))]\<rparr>"
proof -
  let ?req = "providerRequest p (translatePrompt s t text)"
  have "newRequestError env (reqURL ?req) = None"
  proof (rule ccontr)
    assume "newRequestError env (reqURL ?req) \<noteq> None"
    then obtain e where "newRequestError env (reqURL ?req) = Some e" by auto
    then have "Translate env p text s t w = (Fail e, w)"
      by (simp add: Translate_def postJSON_def withContent_def)
    with assms show False by simp
  qed
  then show ?thesis using Translate_snd [of env p "text" s t w] assms by simp
qed

lemma translateSingleTemplate_unreadable:
  "ReadFile w f = Inl err \<Longrightarrow>
   translateSingleTemplate env f lang provider model w
     = (Fail (Wrap err (''unable to read file: '' @ f)), w)"
  by (simp add: translateSingleTemplate_def)

lemma translateSingleTemplate_Ok_read:
  "fst (translateSingleTemplate env f lang provider model w) = Ok u
     \<Longrightarrow> \<exists>content. ReadFile w f = Inr content"
  by (cases "ReadFile w f") (auto simp: translateSingleTemplate_def)



lemma translateSections_unchanged:
  assumes "\<And>section w'. section \<in> set secs \<Longrightarrow> shouldTranslate section
             \<Longrightarrow> fst (P section s t w') = Ok section"
  shows "fst (translateSections P s t secs acc w) = Ok (acc @ secs)"
  using assms
proof (induction secs arbitrary: acc w)
  case Nil
  show ?case by simp
next
  case (Cons sec secs)
  show ?case
  proof (cases "shouldTranslate sec")
    case True
    then have "fst (P sec s t w) = Ok sec" using Cons.prems by simp
    then obtain w' where "P sec s t w = (Ok sec, w')"
      by (cases "P sec s t w") auto
    then show ?thesis using True Cons.IH [of "acc @ [sec]" w'] Cons.prems by simp
  next
    case False
    then show ?thesis using Cons.IH [of "acc @ [sec]" w] Cons.prems by simp
  qed
qed

lemma TranslateDocumentWith_fst:
  "fst (TranslateDocumentWith P content s t w) =
     (case fst (translateSections P s t (extractSections content) [] w) of
        Ok secs \<Rightarrow> Ok (Join secs ''\<newline>'')
      | Fail e \<Rightarrow> Fail e
      | Panicked p \<Rightarrow> Panicked p)"
  by (cases "translateSections P s t (extractSections content) [] w";
      cases "fst (translateSections P s t (extractSections content) [] w)")
     (auto simp: TranslateDocumentWith_def)

lemma translateSingleTemplate_skipped:
  assumes "ReadFile w f = Inr content"
    and "shouldSkipTranslation w f (generateTranslatedPath f lang)"
  shows "translateSingleTemplate env f lang provider model w
           = (Ok (), printOut (''Skipping '' @ generateTranslatedPath f lang
                                 @ '' (translation is up to date)\<newline>'') w)"
  using assms by (simp add: translateSingleTemplate_def Let_def)














lemma writtenTexts_map_HttpPost: "writtenTexts (map HttpPost reqs) = []"
  by (induction reqs) auto

lemma pandocRuns_map_HttpPost: "pandocRuns (map HttpPost reqs) = []"
  by (induction reqs) auto

lemma translateSections_world:
  "translateSections (Translate env p) s t secs acc w = (r, w') \<Longrightarrow>
   \<exists>reqs. w' = w\<lparr>trace := trace w @ map HttpPost reqs\<rparr> \<and>
     ((\<exists>out. r = Ok out) \<longrightarrow>
        reqs = map (\<lambda>x. providerRequest p (translatePrompt s t x)) (filter shouldTranslate secs))"
proof (induction secs arbitrary: acc w)
  case Nil
  then have "w' = w\<lparr>trace := trace w @ map HttpPost []\<rparr>" by simp
  then show ?case by (intro exI [of _ "[]"]) simp
next
  case (Cons sec secs)
  show ?case
  proof (cases "shouldTranslate sec")
    case False
    then have "translateSections (Translate env p) s t secs (acc @ [sec]) w = (r, w')"
      using Cons.prems by simp
    from Cons.IH [OF this] False show ?thesis by simp
  next
    case True
    let ?req = "providerRequest p (translatePrompt s t sec)"
    obtain x w1 where tr: "Translate env p sec s t w = (x, w1)"
      by (cases "Translate env p sec s t w") auto
    show ?thesis
    proof (cases x)
      case (Ok translated)
      have w1: "w1 = w\<lparr>trace := trace w @ [HttpPost ?req]\<rparr>"
        using Translate_Ok_sent [of env p sec s t w translated w1] tr Ok by simp
      have "translateSections (Translate env p) s t secs (acc @ [translated]) w1 = (r, w')"
        using Cons.prems True tr Ok by simp
      from Cons.IH [OF this] obtain reqs where
        r1: "w' = w1\<lparr>trace := trace w1 @ map HttpPost reqs\<rparr>" and
        r2: "(\<exists>out. r = Ok out) \<longrightarrow>
               reqs = map (\<lambda>x. providerRequest p (translatePrompt s t x))
                        (filter shouldTranslate secs)"
        by (elim exE conjE)
      have "w' = w\<lparr>trace := trace w @ map HttpPost (?req # reqs)\<rparr>"
        using r1 w1 by simp
      moreover have "(\<exists>out. r = Ok out) \<longrightarrow>
          ?req # reqs = map (\<lambda>x. providerRequest p (translatePrompt s t x))
                          (filter shouldTranslate (sec # secs))"
        using r2 True by simp
      ultimately show ?thesis by (intro exI [of _ "?req # reqs"] conjI)
    next
      case (Fail e)
      have res: "r = Fail (Wrap e ''failed to translate section'')" "w' = w1"
        using Cons.prems True tr Fail by simp_all
      have notOk: "\<not> (\<exists>out. r = Ok out)" using res by simp
      show ?thesis
      proof (cases "newRequestError env (reqURL ?req) = None")
        case sent: True
        then have "w' = w\<lparr>trace := trace w @ map HttpPost [?req]\<rparr>"
          using Translate_snd [of env p sec s t w] tr res by simp
        then show ?thesis using notOk by (intro exI [of _ "[?req]"] conjI) simp_all
      next
        case unsent: False
        then have "w' = w\<lparr>trace := trace w @ map HttpPost []\<rparr>"
          using Translate_snd [of env p sec s t w] tr res by simp
        then show ?thesis using notOk by (intro exI [of _ "[]"] conjI) simp_all
      qed
    next
      case (Panicked m)
      have res: "r = Panicked m" "w' = w1"
        using Cons.prems True tr Panicked by simp_all
      have notOk: "\<not> (\<exists>out. r = Ok out)" using res by simp
      show ?thesis
      proof (cases "newRequestError env (reqURL ?req) = None")
        case sent: True
        then have "w' = w\<lparr>trace := trace w @ map HttpPost [?req]\<rparr>"
          using Translate_snd [of env p sec s t w] tr res by simp
        then show ?thesis using notOk by (intro exI [of _ "[?req]"] conjI) simp_all
      next
        case unsent: False
        then have "w' = w\<lparr>trace := trace w @ map HttpPost []\<rparr>"
          using Translate_snd [of env p sec s t w] tr res by simp
        then show ?thesis using notOk by (intro exI [of _ "[]"] conjI) simp_all
      qed
    qed
  qed
qed

lemma TranslateDocument_world:
  assumes "TranslateDocument env content s t providerType model w = (r, w')"
  shows "\<exists>reqs. w' = w\<lparr>trace := trace w @ map HttpPost reqs\<rparr> \<and>
     ((\<exists>out. r = Ok out) \<longrightarrow>
        (\<exists>p. NewProvider env providerType (getAPIKey env providerType) model = Ok p \<and>
           reqs = map (\<lambda>x. providerRequest p (translatePrompt s t x))
                    (filter shouldTranslate (extractSections content))))"
proof (cases "NewProvider env providerType (getAPIKey env providerType) model")
  case (Ok p)
  obtain r0 w0 where ts:
    "translateSections (Translate env p) s t (extractSections content) [] w = (r0, w0)"
    by (cases "translateSections (Translate env p) s t (extractSections content) [] w") auto
  from translateSections_world [OF ts] obtain reqs where
    r1: "w0 = w\<lparr>trace := trace w @ map HttpPost reqs\<rparr>" and
    r2: "(\<exists>out. r0 = Ok out) \<longrightarrow>
           reqs = map (\<lambda>x. providerRequest p (translatePrompt s t x))
                    (filter shouldTranslate (extractSections content))"
    by (elim exE conjE)
  have R: "(r, w') = (case r0 of
                       Ok translatedSections \<Rightarrow> (Ok (Join translatedSections ''\<newline>''), w0)
                     | Fail e \<Rightarrow> (Fail e, w0)
                     | Panicked m \<Rightarrow> (Panicked m, w0))"
    using assms Ok ts by (cases r0) (simp_all add: TranslateDocument_def TranslateDocumentWith_def)
  have same: "w' = w0" using R by (cases r0) simp_all
  have okok: "\<exists>out. r0 = Ok out" if "\<exists>out. r = Ok out"
    using R that by (cases r0) auto
  show ?thesis
  proof (intro exI [of _ reqs] conjI impI)
    show "w' = w\<lparr>trace := trace w @ map HttpPost reqs\<rparr>" using r1 same by simp
  next
    assume "\<exists>out. r = Ok out"
    then have "reqs = map (\<lambda>x. providerRequest p (translatePrompt s t x))
                    (filter shouldTranslate (extractSections content))"
      using r2 okok by (elim exE) auto
    then show "\<exists>p. NewProvider env providerType (getAPIKey env providerType) model = Ok p \<and>
           reqs = map (\<lambda>x. providerRequest p (translatePrompt s t x))
                    (filter shouldTranslate (extractSections content))"
      using Ok by (intro exI [of _ p] conjI)
  qed
next
  case (Fail e)
  then have "w' = w\<lparr>trace := trace w @ map HttpPost []\<rparr>" "r = Fail e"
    using assms by (simp_all add: TranslateDocument_def)
  then show ?thesis by (intro exI [of _ "[]"] conjI) simp_all
next
  case (Panicked m)
  then have "w' = w\<lparr>trace := trace w @ map HttpPost []\<rparr>" "r = Panicked m"
    using assms by (simp_all add: TranslateDocument_def)
  then show ?thesis by (intro exI [of _ "[]"] conjI) simp_all
qed

lemma appends_refl: "appends w w"
  by (simp add: appends_def)

lemma appends_trans: "appends a b \<Longrightarrow> appends b c \<Longrightarrow> appends a c"
  by (auto simp: appends_def)

lemma appends_printOut: "appends w (printOut s w)"
  by (simp add: appends_def printOut_def)

lemma appends_WriteFile: "appends w (snd (WriteFile path content w))"
  by (simp add: appends_def WriteFile_def)

lemma appends_osRemove: "appends w (osRemove path w)"
  by (cases "files w path") (simp_all add: appends_def osRemove_def)

lemma appends_preprocessDoc: "appends w (snd (preprocessDoc env data doc path w))"
  by (cases "preprocessOut env data doc")
     (simp_all add: preprocessDoc_def appends_WriteFile appends_refl)

lemma appends_pandoc: "appends w (snd (pandoc env name w))"
  by (simp add: appends_def pandoc_def)

lemma appends_runPandoc: "appends w (snd (runPandoc env args w))"
  by (simp add: runPandoc_def Let_def appends_pandoc appends_refl)

lemma appends_generateTranslatedPDF:
  "appends w (snd (generateTranslatedPDF env mdPath outputDir outputFilename targetLang w))"
  by (simp add: generateTranslatedPDF_def Let_def appends_runPandoc)

lemma appends_generateTranslatedHTML:
  "appends w (snd (generateTranslatedHTML env mdPath outputDir outputFilename targetLang w))"
  by (simp add: generateTranslatedHTML_def Let_def appends_runPandoc)

lemma appends_finishRendered:
  "appends w (finishRendered env doc outputDir targetLang format preprocessedPath translatedPath w)"
proof -
  have "appends w (osRemove translatedPath (osRemove preprocessedPath w))"
    using appends_osRemove appends_trans by blast
  then show ?thesis
    unfolding finishRendered_def Let_def
    using appends_printOut appends_trans by blast
qed

lemma appends_TranslateDocument:
  "appends w (snd (TranslateDocument env content s t providerType model w))"
proof -
  obtain r w' where td: "TranslateDocument env content s t providerType model w = (r, w')"
    by (cases "TranslateDocument env content s t providerType model w") auto
  from TranslateDocument_world [OF td] obtain reqs where
    "w' = w\<lparr>trace := trace w @ map HttpPost reqs\<rparr>"
    by (elim exE conjE)
  then show ?thesis using td by (simp add: appends_def)
qed

lemma appends_recordModified:
  "trace (recordModified path t w) = trace w @ [RecordModified path t]"
  "subjects (recordModified path t w) path = Some t"
  by (simp_all add: recordModified_def)

lemma appends_after_record:
  assumes "appends (recordModified path t w) w'"
  shows "(\<exists>rest. trace w' = trace w @ RecordModified path t # rest) \<and> subjects w' path = Some t"
  using assms by (auto simp: appends_def recordModified_def)

lemma render_not_newer:
  "\<not> isNewer w (FullPath doc) (ModifiedAt doc) \<Longrightarrow>
   renderTranslatedDocument env data doc outputDir targetLang provider format w = (Ok (), w)"
  by (simp add: renderTranslatedDocument_def)

lemma render_appends:
  assumes nw: "isNewer w (FullPath doc) (ModifiedAt doc)"
  shows "appends (recordModified (FullPath doc) (ModifiedAt doc) w)
           (snd (renderTranslatedDocument env data doc outputDir targetLang provider format w))"
proof -
  define w1 where "w1 = recordModified (FullPath doc) (ModifiedAt doc) w"
  define pp where "pp = filepathJoin [outputDir, OutputFilename doc @ ''.md'']"
  define tp where "tp = filepathJoin [outputDir, OutputFilename doc @ ''_'' @ targetLang @ ''.md'']"
  define msg where "msg = ''Translating '' @ Name doc @ '' to '' @ targetLang @ ''...\<newline>''"
  define gen where "gen = (\<lambda>w4.
      if format = ''pdf''
      then generateTranslatedPDF env tp outputDir (OutputFilename doc) targetLang w4
      else if format = ''html''
      then generateTranslatedHTML env tp outputDir (OutputFilename doc) targetLang w4
      else (None, w4))"
  let ?R = "renderTranslatedDocument env data doc outputDir targetLang provider format w"
  have D: "?R =
      (case preprocessDoc env data doc pp w1 of
         (Some err, w2) \<Rightarrow> (Fail (Wrap err ''unable to preprocess document for translation''), w2)
       | (None, w2) \<Rightarrow>
           (case ReadFile w2 pp of
              Inl err \<Rightarrow> (Fail (Wrap err ''unable to read preprocessed document''), w2)
            | Inr content \<Rightarrow>
                (case TranslateDocument env content ''en'' targetLang provider [] (printOut msg w2) of
                   (Fail err, w3) \<Rightarrow>
                     (Fail (Wrap err (''translation failed for document: '' @ Name doc)), w3)
                 | (Panicked p, w3) \<Rightarrow> (Panicked p, w3)
                 | (Ok translatedContent, w3) \<Rightarrow>
                     (case WriteFile tp translatedContent w3 of
                        (Some err, w4) \<Rightarrow>
                          (Fail (Wrap err ''unable to write translated markdown''), w4)
                      | (None, w4) \<Rightarrow>
                          (case gen w4 of
                             (Some err, w5) \<Rightarrow> (Fail err, w5)
                           | (None, w5) \<Rightarrow>
                               (Ok (), finishRendered env doc outputDir targetLang format
                                         pp tp w5))))))"
    unfolding renderTranslatedDocument_def Let_def w1_def [symmetric] pp_def [symmetric]
      tp_def [symmetric] msg_def [symmetric] gen_def
    using nw by simp
  obtain e2 w2 where p2: "preprocessDoc env data doc pp w1 = (e2, w2)"
    by (cases "preprocessDoc env data doc pp w1") auto
  have a2: "appends w1 w2"
    using appends_preprocessDoc [of w1 env data doc pp] p2 by simp
  show ?thesis
  proof (cases e2)
    case (Some err)
    then have "snd ?R = w2" using D p2 by simp
    then show ?thesis using a2 by (simp add: w1_def)
  next
    case None
    show ?thesis
    proof (cases "ReadFile w2 pp")
      case (Inl err)
      then have "snd ?R = w2" using D p2 None by simp
      then show ?thesis using a2 by (simp add: w1_def)
    next
      case (Inr content)
      obtain r3 w3 where t3:
        "TranslateDocument env content ''en'' targetLang provider [] (printOut msg w2) = (r3, w3)"
        by (cases "TranslateDocument env content ''en'' targetLang provider [] (printOut msg w2)")
           auto
      have a3: "appends w1 w3"
        using appends_TranslateDocument [of "printOut msg w2" env content "''en''" targetLang
            provider "[]"] t3 appends_printOut [of w2 msg] a2 appends_trans
        by (metis snd_conv)
      show ?thesis
      proof (cases r3)
        case (Fail err)
        then have "snd ?R = w3" using D p2 None Inr t3 by simp
        then show ?thesis using a3 by (simp add: w1_def)
      next
        case (Panicked m)
        then have "snd ?R = w3" using D p2 None Inr t3 by simp
        then show ?thesis using a3 by (simp add: w1_def)
      next
        case (Ok tc)
        obtain e4 w4 where p4: "WriteFile tp tc w3 = (e4, w4)"
          by (cases "WriteFile tp tc w3") auto
        have a4: "appends w1 w4"
          using appends_WriteFile [of w3 tp tc] p4 a3 appends_trans by (metis snd_conv)
        show ?thesis
        proof (cases e4)
          case (Some err)
          then have "snd ?R = w4" using D p2 None Inr t3 Ok p4 by simp
          then show ?thesis using a4 by (simp add: w1_def)
        next
          case none4: None
          obtain e5 w5 where p5: "gen w4 = (e5, w5)"
            by (cases "gen w4") auto
          have "appends w4 (snd (gen w4))"
            unfolding gen_def
            using appends_generateTranslatedPDF appends_generateTranslatedHTML appends_refl
            by simp
          then have a5: "appends w1 w5"
            using p5 a4 appends_trans by (metis snd_conv)
          show ?thesis
          proof (cases e5)
            case (Some err)
            then have "snd ?R = w5" using D p2 None Inr t3 Ok p4 none4 p5 by simp
            then show ?thesis using a5 by (simp add: w1_def)
          next
            case none5: None
            have "snd ?R = finishRendered env doc outputDir targetLang format pp tp w5"
              using D p2 None Inr t3 Ok p4 none4 p5 none5 by simp
            then show ?thesis
              using a5 appends_finishRendered [of w5 env doc outputDir targetLang format pp tp]
                appends_trans
              by (metis w1_def)
          qed
        qed
      qed
    qed
  qed
qed


lemma isNewer_iff:
  "isNewer w path t \<longleftrightarrow> \<not> (\<exists>previous. subjects w path = Some previous \<and> t \<le> previous)"
  by (cases "subjects w path") (auto simp: isNewer_def)

lemma runPandoc_html:
  "runPandoc env (args @ [stem @ ''.html'', mdPath]) w = (None, w)"
proof -
  have a: "\<not> HasSuffix (stem @ ''.html'') ''.pdf''"
    by (simp add: HasSuffix_def)
  have b: "HasSuffix (stem @ ''.html'') ''.html''"
    by (rule HasSuffix_append)
  have c: "(args @ [stem @ ''.html'', mdPath]) ! (length (args @ [stem @ ''.html'', mdPath]) - 2)
             = stem @ ''.html''"
    by (simp add: nth_append)
  show ?thesis
    unfolding runPandoc_def c using a b by simp
qed

lemma renderDocuments_append:
  "renderDocuments env data earlier what outputDir targetLang provider format w = (Ok (), w1) \<Longrightarrow>
   renderDocuments env data (earlier @ later) what outputDir targetLang provider format w
     = renderDocuments env data later what outputDir targetLang provider format w1"
proof (induction earlier arbitrary: w)
  case Nil
  then show ?case by simp
next
  case (Cons d ds)
  obtain r w' where step:
    "renderTranslatedDocument env data d outputDir targetLang provider format w = (r, w')"
    by (cases "renderTranslatedDocument env data d outputDir targetLang provider format w")
  show ?case
  proof (cases r)
    case (Ok u)
    then show ?thesis using Cons step by simp
  next
    case (Fail e)
    then show ?thesis using Cons.prems step by simp
  next
    case (Panicked p)
    then show ?thesis using Cons.prems step by simp
  qed
qed

lemma renderDocuments_first_failure:
  assumes "renderDocuments env data earlier what outputDir targetLang provider format w
             = (Ok (), w1)"
    and "renderTranslatedDocument env data doc outputDir targetLang provider format w1
             = (Fail err, w2)"
  shows "renderDocuments env data (earlier @ doc # later) what outputDir targetLang provider
           format w = (Fail (Wrap err (what @ Name doc)), w2)"
  using renderDocuments_append [OF assms(1), of "doc # later"] assms(2) by simp

lemma translateLanguages_append:
  "translateLanguages env file earlier provider model w = (Ok (), w1) \<Longrightarrow>
   translateLanguages env file (earlier @ later) provider model w
     = translateLanguages env file later provider model w1"
proof (induction earlier arbitrary: w)
  case Nil
  then show ?case by simp
next
  case (Cons l ls)
  obtain r w' where step: "translateSingleTemplate env file l provider model w = (r, w')"
    by (cases "translateSingleTemplate env file l provider model w")
  show ?case
  proof (cases r)
    case (Ok u)
    then show ?thesis using Cons step by simp
  next
    case (Fail e)
    then show ?thesis using Cons.prems step by simp
  next
    case (Panicked p)
    then show ?thesis using Cons.prems step by simp
  qed
qed

lemma translateFiles_append:
  "translateFiles env earlier languages provider model w = (Ok (), w1) \<Longrightarrow>
   translateFiles env (earlier @ later) languages provider model w
     = translateFiles env later languages provider model w1"
proof (induction earlier arbitrary: w)
  case Nil
  then show ?case by simp
next
  case (Cons f fs)
  obtain r w' where step: "translateLanguages env f languages provider model w = (r, w')"
    by (cases "translateLanguages env f languages provider model w")
  show ?case
  proof (cases r)
    case (Ok u)
    then show ?thesis using Cons step by simp
  next
    case (Fail e)
    then show ?thesis using Cons.prems step by simp
  next
    case (Panicked p)
    then show ?thesis using Cons.prems step by simp
  qed
qed

lemma translateFiles_first_failure:
  assumes "translateFiles env filesBefore (languagesBefore @ lang # languagesAfter) provider
             model w = (Ok (), w1)"
    and "translateLanguages env file languagesBefore provider model w1 = (Ok (), w2)"
    and "translateSingleTemplate env file lang provider model w2 = (Fail err, w3)"
  shows "translateFiles env (filesBefore @ file # filesAfter)
           (languagesBefore @ lang # languagesAfter) provider model w
         = (Fail (Wrap err (''failed to translate '' @ file @ '' to '' @ lang)), w3)"
proof -
  define msg where "msg = ''failed to translate '' @ file @ '' to '' @ lang"
  have "translateLanguages env file (languagesBefore @ lang # languagesAfter) provider model w1
          = (Fail (Wrap err msg), w3)"
    using translateLanguages_append [OF assms(2), of "lang # languagesAfter"] assms(3)
    by (simp add: msg_def)
  then show ?thesis
    unfolding msg_def [symmetric]
    using translateFiles_append [OF assms(1), of "file # filesAfter"] by simp
qed

lemma TranslateTemplates_failure:
  assumes "Translation env = Some cfg" and "cfgEnabled cfg" and "cfgLanguages cfg \<noteq> []"
    and "(if provider = [] then cfgProvider cfg else provider) \<noteq> []"
    and "(if path \<noteq> [] then getFilesToTranslate env w path else getAllTemplateFiles env w)
           = Ok found"
    and "found \<noteq> []"
    and "translateFiles env found (cfgLanguages cfg)
           (if provider = [] then cfgProvider cfg else provider) (cfgModel cfg)
           (printOut (''Translating '' @ showNat (length found) @ '' files to languages: ''
                        @ Join (cfgLanguages cfg) '', '' @ ''\<newline>'') w)
         = (Fail err, w')"
  shows "TranslateTemplates env path provider w = (Fail err, w')"
proof -
  define banner where "banner = ''Translating '' @ showNat (length found)
      @ '' files to languages: '' @ Join (cfgLanguages cfg) '', '' @ ''\<newline>''"
  have tf: "translateFiles env found (cfgLanguages cfg)
           (if provider = [] then cfgProvider cfg else provider) (cfgModel cfg)
           (printOut banner w) = (Fail err, w')"
    using assms(7) by (simp add: banner_def)
  show ?thesis
  proof (cases "path = []")
    case True
    then have g: "getAllTemplateFiles env w = Ok found" using assms(5) by simp
    show ?thesis
      unfolding TranslateTemplates_def Let_def
      using assms(1,2,3,4,6) True g tf
      by (simp add: banner_def del: showNat.simps)
  next
    case False
    then have g: "getFilesToTranslate env w path = Ok found" using assms(5) by simp
    show ?thesis
      unfolding TranslateTemplates_def Let_def
      using assms(1,2,3,4,6) False g tf
      by (simp add: banner_def del: showNat.simps)
  qed
qed

lemma translatedBatch_cases:
  assumes "getRenderData env = Inr data"
  shows "renderDocuments env data (Policies data)
             (''unable to render translated policy'' @ suffix @ '': '')
             outputDir targetLang provider format (printOut banner w) = (Fail err, w') \<Longrightarrow>
         translatedBatch env format dataMsg suffix outputDir targetLang provider banner w
           = (Fail err, w')"
    and "renderDocuments env data (Policies data)
             (''unable to render translated policy'' @ suffix @ '': '')
             outputDir targetLang provider format (printOut banner w) = (Ok (), w1) \<Longrightarrow>
         renderDocuments env data (map procedureDocument (Procedures data))
             (''unable to render translated procedure'' @ suffix @ '': '')
             outputDir targetLang provider format w1 = (Fail err, w') \<Longrightarrow>
         translatedBatch env format dataMsg suffix outputDir targetLang provider banner w
           = (Fail err, w')"
    and "renderDocuments env data (Policies data)
             (''unable to render translated policy'' @ suffix @ '': '')
             outputDir targetLang provider format (printOut banner w) = (Ok (), w1) \<Longrightarrow>
         renderDocuments env data (map procedureDocument (Procedures data))
             (''unable to render translated procedure'' @ suffix @ '': '')
             outputDir targetLang provider format w1 = (Ok (), w2) \<Longrightarrow>
         translatedBatch env format dataMsg suffix outputDir targetLang provider banner w
           = renderDocuments env data (Narratives data)
               (''unable to render translated narrative'' @ suffix @ '': '')
               outputDir targetLang provider format w2"
proof -
  define mp where "mp = ''unable to render translated policy'' @ suffix @ '': ''"
  define mq where "mq = ''unable to render translated procedure'' @ suffix @ '': ''"
  define mn where "mn = ''unable to render translated narrative'' @ suffix @ '': ''"
  have D: "translatedBatch env format dataMsg suffix outputDir targetLang provider banner w =
     (case renderDocuments env data (Policies data) mp
                  outputDir targetLang provider format (printOut banner w) of
             (Ok u, w1) \<Rightarrow>
               (case renderDocuments env data (map procedureDocument (Procedures data)) mq
                       outputDir targetLang provider format w1 of
                  (Ok u', w2) \<Rightarrow>
                    renderDocuments env data (Narratives data) mn
                      outputDir targetLang provider format w2
                | r \<Rightarrow> r)
           | r \<Rightarrow> r)"
    unfolding translatedBatch_def Let_def mp_def mq_def mn_def using assms by simp
  show "renderDocuments env data (Policies data)
             (''unable to render translated policy'' @ suffix @ '': '')
             outputDir targetLang provider format (printOut banner w) = (Fail err, w') \<Longrightarrow>
         translatedBatch env format dataMsg suffix outputDir targetLang provider banner w
           = (Fail err, w')"
    unfolding D mp_def [symmetric] by simp
  show "renderDocuments env data (Policies data)
             (''unable to render translated policy'' @ suffix @ '': '')
             outputDir targetLang provider format (printOut banner w) = (Ok (), w1) \<Longrightarrow>
         renderDocuments env data (map procedureDocument (Procedures data))
             (''unable to render translated procedure'' @ suffix @ '': '')
             outputDir targetLang provider format w1 = (Fail err, w') \<Longrightarrow>
         translatedBatch env format dataMsg suffix outputDir targetLang provider banner w
           = (Fail err, w')"
    unfolding D mp_def [symmetric] mq_def [symmetric] by simp
  show "renderDocuments env data (Policies data)
             (''unable to render translated policy'' @ suffix @ '': '')
             outputDir targetLang provider format (printOut banner w) = (Ok (), w1) \<Longrightarrow>
         renderDocuments env data (map procedureDocument (Procedures data))
             (''unable to render translated procedure'' @ suffix @ '': '')
             outputDir targetLang provider format w1 = (Ok (), w2) \<Longrightarrow>
         translatedBatch env format dataMsg suffix outputDir targetLang provider banner w
           = renderDocuments env data (Narratives data)
               (''unable to render translated narrative'' @ suffix @ '': '')
               outputDir targetLang provider format w2"
    unfolding D mp_def [symmetric] mq_def [symmetric] mn_def [symmetric] by simp
qed


lemma translatedBatch_result:
  assumes "getRenderData env = Inr data"
  shows "translatedBatch env format dataMsg suffix outputDir targetLang provider banner w =
     (let P = renderDocuments env data (Policies data)
                (''unable to render translated policy'' @ suffix @ '': '')
                outputDir targetLang provider format (printOut banner w);
          Q = renderDocuments env data (map procedureDocument (Procedures data))
                (''unable to render translated procedure'' @ suffix @ '': '')
                outputDir targetLang provider format (snd P);
          N = renderDocuments env data (Narratives data)
                (''unable to render translated narrative'' @ suffix @ '': '')
                outputDir targetLang provider format (snd Q)
      in if fst P \<noteq> Ok () then P else if fst Q \<noteq> Ok () then Q else N)"
proof -
  define mp where "mp = ''unable to render translated policy'' @ suffix @ '': ''"
  define mq where "mq = ''unable to render translated procedure'' @ suffix @ '': ''"
  define mn where "mn = ''unable to render translated narrative'' @ suffix @ '': ''"
  define P where "P = renderDocuments env data (Policies data) mp
                  outputDir targetLang provider format (printOut banner w)"
  define Q where "Q = renderDocuments env data (map procedureDocument (Procedures data)) mq
                       outputDir targetLang provider format (snd P)"
  have D: "translatedBatch env format dataMsg suffix outputDir targetLang provider banner w =
     (case P of
             (Ok u, w1) \<Rightarrow>
               (case renderDocuments env data (map procedureDocument (Procedures data)) mq
                       outputDir targetLang provider format w1 of
                  (Ok u', w2) \<Rightarrow>
                    renderDocuments env data (Narratives data) mn
                      outputDir targetLang provider format w2
                | r \<Rightarrow> r)
           | r \<Rightarrow> r)"
    unfolding translatedBatch_def Let_def mp_def mq_def mn_def P_def using assms by simp
  obtain rp wp where p: "P = (rp, wp)" by (cases P)
  obtain rq wq where q: "Q = (rq, wq)" by (cases Q)
  have q': "renderDocuments env data (map procedureDocument (Procedures data)) mq
              outputDir targetLang provider format wp = (rq, wq)"
    using q p by (simp add: Q_def)
  have "translatedBatch env format dataMsg suffix outputDir targetLang provider banner w =
      (if fst P \<noteq> Ok () then P else if fst Q \<noteq> Ok () then Q
       else renderDocuments env data (Narratives data) mn outputDir targetLang provider format
              (snd Q))"
    unfolding D using p q q' by (cases rp; cases rq; simp)
  then show ?thesis
    unfolding Let_def mp_def [symmetric] mq_def [symmetric] mn_def [symmetric]
      P_def [symmetric] Q_def [symmetric] .
qed













section \<open>The claims\<close>

text \<open>
  C5, as amended. For every filename f whose last element has an extension (every
  \<open>.md\<close> template the pipeline selects has one) and every tag t without a dot or a slash
  that has exactly two characters or holds a hyphen (and at least two characters):
  extractLanguageFromFilename gives back t from generateTranslatedPath f t, and
  isTemplateFile is false for that path.
\<close>

theorem codec_inverse:
  assumes ext: "Ext (Base f) \<noteq> []"
    and nodot: "CHR ''.'' \<notin> set t" and noslash: "CHR ''/'' \<notin> set t"
    and tag: "length t = 2 \<or> (Contains t ''-'' \<and> length t \<ge> 2)"
  shows "extractLanguageFromFilename (generateTranslatedPath f t) extension = t \<and>
         isTemplateFile (generateTranslatedPath f t) = False"
proof -
  have "Base f \<noteq> ''/''" using ext by (auto simp: Ext_def)
  then have bslash: "CHR ''/'' \<notin> set (Base f)" using Base_no_slash [of f] by simp
  obtain name e where fn: "Base f = name @ CHR ''.'' # e" and ex: "Ext (Base f) = CHR ''.'' # e"
    and edot: "CHR ''.'' \<notin> set e" and tr: "TrimSuffix (Base f) (Ext (Base f)) = name"
    using Ext_shape [OF bslash ext] by blast
  define tf where "tf = name @ ''.'' @ t @ CHR ''.'' # e"
  have tfslash: "CHR ''/'' \<notin> set tf"
    using bslash fn noslash by (auto simp: tf_def)
  have tflen: "length tf \<ge> 4" using tag by (auto simp: tf_def)
  then have tfne: "tf \<noteq> []" "tf \<noteq> ''.''" "tf \<noteq> ''..''" by auto
  have dirne: "Dir f \<noteq> []" by (simp add: Dir_def Clean_nonempty)
  have gen: "generateTranslatedPath f t = Clean (Dir f @ ''/'' @ tf)"
    unfolding generateTranslatedPath_def Let_def tr unfolding ex tf_def using dirne by simp
  obtain p where p: "generateTranslatedPath f t = p @ tf" and pl: "p = [] \<or> last p = CHR ''/''"
    using Clean_snoc [OF tfslash tfne, of "Dir f"] gen by auto
  have parts: "Split (p @ tf) CHR ''.'' = Split (p @ name) CHR ''.'' @ [t, e]"
    using Split_two_tail [OF nodot edot, of "p @ name"] by (simp add: tf_def)
  have tag': "length t \<ge> 2 \<and> (Contains t ''-'' \<or> length t = 2)" using tag by auto
  have len3: "length (Split (p @ name) CHR ''.'' @ [t, e]) \<ge> 3"
    using Split_not_Nil [of "p @ name" "CHR ''.''"] by (cases "Split (p @ name) CHR ''.''") auto
  have dec: "extractLanguageFromFilename (p @ tf) extension = t"
    unfolding extractLanguageFromFilename_def Let_def parts looksLikeTag_nth
    using len3 tag' by simp
  have base: "Base (p @ tf) = tf" using Base_snoc [OF tfslash tfne(1) pl] .
  have parts2: "Split tf CHR ''.'' = Split name CHR ''.'' @ [t, e]"
    using Split_two_tail [OF nodot edot, of name] by (simp add: tf_def)
  have len3': "length (Split name CHR ''.'' @ [t, e]) \<ge> 3"
    using Split_not_Nil [of name "CHR ''.''"] by (cases "Split name CHR ''.''") auto
  have tagd: "isTemplateFile (p @ tf) = False"
    unfolding isTemplateFile_def Let_def base parts2 looksLikeTag_nth
    using len3' tag' by simp
  show ?thesis using dec tagd p by simp
qed

theorem codec_inverse_witness:
  "Ext (Base ''policies/patch.md'') \<noteq> [] \<and>
   CHR ''.'' \<notin> set ''pt-BR'' \<and> CHR ''/'' \<notin> set ''pt-BR'' \<and>
   (length ''pt-BR'' = 2 \<or> (Contains ''pt-BR'' ''-'' \<and> length ''pt-BR'' \<ge> 2)) \<and>
   generateTranslatedPath ''policies/patch.md'' ''pt-BR'' = ''policies/patch.pt-BR.md'' \<and>
   extractLanguageFromFilename (generateTranslatedPath ''policies/patch.md'' ''pt-BR'') ''md''
     = ''pt-BR'' \<and>
   isTemplateFile (generateTranslatedPath ''policies/patch.md'' ''pt-BR'') = False"
proof -
  have h1: "Ext (Base ''policies/patch.md'') \<noteq> []" by code_simp
  have h2: "CHR ''.'' \<notin> set ''pt-BR''" by simp
  have h3: "CHR ''/'' \<notin> set ''pt-BR''" by simp
  have h4: "length ''pt-BR'' = 2 \<or> (Contains ''pt-BR'' ''-'' \<and> length ''pt-BR'' \<ge> 2)"
    by simp
  have g: "generateTranslatedPath ''policies/patch.md'' ''pt-BR'' = ''policies/patch.pt-BR.md''"
    by code_simp
  show ?thesis
    using codec_inverse [OF h1 h2 h3 h4, of "''md''"] h1 h2 h3 h4 g by simp
qed

text \<open>
  C5 as stated fails: an untagged name without an extension (\<open>notes\<close>) is encoded to
  \<open>notes.pt\<close>, which has two parts only, so no tag is read back; the two-character tag
  \<open>x.\<close> is read back as the empty string; and with the two-character tag \<open>p/\<close> the
  encoded path \<open>a.p/.md\<close> has the last element \<open>.md\<close>, which counts as a template.
\<close>

theorem codec_inverse_counterexample:
  "isTemplateFile ''notes'' \<and>
   extractLanguageFromFilename ''notes'' ''md'' = [] \<and>
   extractLanguageFromFilename (generateTranslatedPath ''notes'' ''pt'') ''md'' \<noteq> ''pt'' \<and>
   isTemplateFile ''a.md'' \<and>
   extractLanguageFromFilename ''a.md'' ''md'' = [] \<and>
   extractLanguageFromFilename (generateTranslatedPath ''a.md'' ''x.'') ''md'' \<noteq> ''x.'' \<and>
   isTemplateFile (generateTranslatedPath ''a.md'' ''p/'')"
  by code_simp

text \<open>
  C1, as amended. Joining the segments of extractSections with newlines gives back the
  document body, byte for byte. Consequently the loop of TranslateDocument, run with a
  provider whose Translate returns its text, returns the body unchanged; and
  TranslateDocument itself returns the body unchanged whenever the provider it builds
  answers every translatable segment with that segment.
\<close>

theorem segments_roundtrip:
  "Join (extractSections content) ''\<newline>'' = content \<and>
   TranslateDocumentWith identityProvider content sourceLang targetLang w = (Ok content, w) \<and>
   (NewProvider env providerType (getAPIKey env providerType) model = Ok p \<and>
    (\<forall>section w'. section \<in> set (extractSections content) \<and> shouldTranslate section
        \<longrightarrow> fst (Translate env p section sourceLang targetLang w') = Ok section)
    \<longrightarrow> fst (TranslateDocument env content sourceLang targetLang providerType model w)
          = Ok content)"
proof -
  have rt: "Join (extractSections content) ''\<newline>'' = content"
    unfolding extractSections_def extractLoop_Join
    using Join_Split [of content "CHR ''\<newline>''"] by simp
  have idp: "TranslateDocumentWith identityProvider content sourceLang targetLang w
               = (Ok content, w)"
    by (simp add: TranslateDocumentWith_def translateSections_identity rt)
  have real: "fst (TranslateDocument env content sourceLang targetLang providerType model w)
                = Ok content"
    if np: "NewProvider env providerType (getAPIKey env providerType) model = Ok p"
      and same: "\<forall>section w'. section \<in> set (extractSections content) \<and> shouldTranslate section
        \<longrightarrow> fst (Translate env p section sourceLang targetLang w') = Ok section"
  proof -
    have "fst (translateSections (Translate env p) sourceLang targetLang
                 (extractSections content) [] w) = Ok ([] @ extractSections content)"
      using same by (intro translateSections_unchanged) blast
    then show ?thesis
      by (simp add: TranslateDocument_def np TranslateDocumentWith_fst rt)
  qed
  from rt idp real show ?thesis by blast
qed

theorem segments_roundtrip_witness:
  "Join (extractSections
           ''---\<newline>name: Access Policy\<newline>---\<newline>\<newline># Purpose\<newline>a. text.\<newline>'')
     ''\<newline>''
     = ''---\<newline>name: Access Policy\<newline>---\<newline>\<newline># Purpose\<newline>a. text.\<newline>'' \<and>
   NewProvider echoEnv ''ollama'' (getAPIKey echoEnv ''ollama'') []
     = Ok (OllamaProvider ''http://localhost:11434'' ''llama3:8b'') \<and>
   extractSections
     ''---\<newline>name: Access Policy\<newline>---\<newline>\<newline># Purpose\<newline>a. text.\<newline>''
     = [''---\<newline>name: Access Policy\<newline>---'', [], ''# Purpose\<newline>a. text.'', []] \<and>
   fst (TranslateDocument echoEnv
          ''---\<newline>name: Access Policy\<newline>---\<newline>\<newline># Purpose\<newline>a. text.\<newline>''
          ''en'' ''es'' ''ollama'' [] (exampleWorld (\<lambda>path. None)))
     = Ok ''---\<newline>name: Access Policy\<newline>---\<newline>\<newline># Purpose\<newline>a. text.\<newline>''"
proof -
  let ?c = "''---\<newline>name: Access Policy\<newline>---\<newline>\<newline># Purpose\<newline>a. text.\<newline>''"
  let ?p = "OllamaProvider ''http://localhost:11434'' ''llama3:8b''"
  have np: "NewProvider echoEnv ''ollama'' (getAPIKey echoEnv ''ollama'') [] = Ok ?p"
    by code_simp
  have secs: "extractSections ?c
      = [''---\<newline>name: Access Policy\<newline>---'', [], ''# Purpose\<newline>a. text.'', []]"
    by code_simp
  have s1: "\<not> shouldTranslate ''---\<newline>name: Access Policy\<newline>---''" by code_simp
  have s2: "\<not> shouldTranslate []" by code_simp
  have s3: "fst (Translate echoEnv ?p ''# Purpose\<newline>a. text.'' ''en'' ''es'' w')
              = Ok ''# Purpose\<newline>a. text.''" for w'
    by code_simp
  have same: "\<forall>section w'. section \<in> set (extractSections ?c) \<and> shouldTranslate section
        \<longrightarrow> fst (Translate echoEnv ?p section ''en'' ''es'' w') = Ok section"
    unfolding secs using s1 s2 s3 by auto
  show ?thesis
    using segments_roundtrip [where content = ?c and env = echoEnv and providerType = "''ollama''"
        and model = "[]" and p = ?p and sourceLang = "''en''" and targetLang = "''es''"
        and w = "exampleWorld (\<lambda>path. None)"] np same secs
    by blast
qed

text \<open>
  C1 as stated fails in its second half on the entry point of the code: TranslateDocument
  builds its provider itself, and every provider trims the answer it extracts. With a
  backend that answers each request with the very text it was asked to translate, the
  body \<open>'' a''\<close> comes back as \<open>''a''\<close>.
\<close>

theorem segments_roundtrip_counterexample:
  "echoHttp ''en'' ''es''
     (providerRequest (OllamaProvider ''http://localhost:11434'' ''llama3:8b'')
        (translatePrompt ''en'' ''es'' '' a''))
     = Inr \<lparr>StatusCode = 200, respBody = '' a''\<rparr> \<and>
   fst (TranslateDocument echoEnv '' a'' ''en'' ''es'' ''ollama'' []
          (exampleWorld (\<lambda>path. None))) = Ok ''a'' \<and>
   ''a'' \<noteq> '' a''"
  by code_simp

text \<open>
  C9. translateSingleTemplate reads the source before it looks at the translation: when
  the source cannot be read it returns the read error, wrapped, and changes nothing,
  whether or not an up-to-date translation exists; so whenever it returns success (the
  skip included) the source was read.
\<close>

theorem read_before_skip:
  "(ReadFile w filePath = Inl err \<longrightarrow>
      translateSingleTemplate env filePath targetLang provider model w
        = (Fail (Wrap err (''unable to read file: '' @ filePath)), w)) \<and>
   (fst (translateSingleTemplate env filePath targetLang provider model w) = Ok () \<longrightarrow>
      (\<exists>content. ReadFile w filePath = Inr content))"
  using translateSingleTemplate_unreadable [of w filePath err env targetLang provider model]
    translateSingleTemplate_Ok_read [of env filePath targetLang provider model w "()"]
  by blast

theorem read_before_skip_witness:
  "ReadFile worldUnreadable ''policies/patch.md''
     = Inl (Errorf ''open policies/patch.md: permission denied'') \<and>
   shouldSkipTranslation worldUnreadable ''policies/patch.md''
     (generateTranslatedPath ''policies/patch.md'' ''es'') \<and>
   translateSingleTemplate (fixedEnv 200 openAIBody) ''policies/patch.md'' ''es'' ''openai'' []
       worldUnreadable
     = (Fail (Wrap (Errorf ''open policies/patch.md: permission denied'')
                ''unable to read file: policies/patch.md''), worldUnreadable) \<and>
   fst (translateSingleTemplate (fixedEnv 200 openAIBody) ''policies/patch.md'' ''es''
          ''openai'' [] worldUpToDate) = Ok () \<and>
   (\<exists>content. ReadFile worldUpToDate ''policies/patch.md'' = Inr content)"
proof -
  have r: "ReadFile worldUnreadable ''policies/patch.md''
             = Inl (Errorf ''open policies/patch.md: permission denied'')"
    by code_simp
  have s: "shouldSkipTranslation worldUnreadable ''policies/patch.md''
             (generateTranslatedPath ''policies/patch.md'' ''es'')"
    by code_simp
  have o: "fst (translateSingleTemplate (fixedEnv 200 openAIBody) ''policies/patch.md'' ''es''
                  ''openai'' [] worldUpToDate) = Ok ()"
    by code_simp
  show ?thesis
    using read_before_skip [of worldUnreadable "''policies/patch.md''"
        "Errorf ''open policies/patch.md: permission denied''" "fixedEnv 200 openAIBody"
        "''es''" "''openai''" "[]"]
      read_before_skip [of worldUpToDate "''policies/patch.md''" _ "fixedEnv 200 openAIBody"
        "''es''" "''openai''" "[]"]
      r s o
    by simp
qed











text \<open>
  C7. In renderTranslatedDocument: when isNewer is false for the document's path and
  modification time (the path is recorded with that time or a later one), the call returns
  success and the world is exactly as before: nothing written, no provider called, no
  renderer run, nothing printed or recorded. Otherwise the first effect of the call is
  recordModified for that path and time, ahead of every effect of preprocessing,
  translation and rendering, and the record stays in place whatever happens next.
\<close>

theorem staleness_check:
  "(\<not> isNewer w (FullPath doc) (ModifiedAt doc) \<longrightarrow>
      renderTranslatedDocument env data doc outputDir targetLang provider format w = (Ok (), w)) \<and>
   (isNewer w (FullPath doc) (ModifiedAt doc) \<longrightarrow>
      (\<exists>rest. trace (snd (renderTranslatedDocument env data doc outputDir targetLang provider
                             format w))
                = trace w @ RecordModified (FullPath doc) (ModifiedAt doc) # rest) \<and>
      subjects (snd (renderTranslatedDocument env data doc outputDir targetLang provider
                       format w)) (FullPath doc) = Some (ModifiedAt doc)) \<and>
   (isNewer w path t \<longleftrightarrow> \<not> (\<exists>previous. subjects w path = Some previous \<and> t \<le> previous))"
proof -
  have "(\<exists>rest. trace (snd (renderTranslatedDocument env data doc outputDir targetLang provider
                             format w))
                = trace w @ RecordModified (FullPath doc) (ModifiedAt doc) # rest) \<and>
      subjects (snd (renderTranslatedDocument env data doc outputDir targetLang provider
                       format w)) (FullPath doc) = Some (ModifiedAt doc)"
    if "isNewer w (FullPath doc) (ModifiedAt doc)"
    using appends_after_record [OF render_appends [OF that]] .
  then show ?thesis
    using render_not_newer [of w doc env data outputDir targetLang provider format]
      isNewer_iff [of w path t]
    by blast
qed

theorem staleness_check_witness:
  "\<not> isNewer worldRecorded (FullPath docAccess) (ModifiedAt docAccess) \<and>
   subjects worldRecorded ''/repo/policies/access.md'' = Some 7 \<and>
   ModifiedAt docAccess = 7 \<and>
   renderTranslatedDocument echoEnv dataExample docAccess ''output'' ''es'' ''ollama'' ''pdf''
       worldRecorded = (Ok (), worldRecorded) \<and>
   isNewer (exampleWorld (\<lambda>path. None)) (FullPath docAccess) (ModifiedAt docAccess) \<and>
   take 2 (trace (snd (renderTranslatedDocument echoEnv dataExample docAccess ''output'' ''es''
                         ''ollama'' ''pdf'' (exampleWorld (\<lambda>path. None)))))
     = [RecordModified ''/repo/policies/access.md'' 7,
        Write ''output/access.md'' (Body docAccess)] \<and>
   subjects (snd (renderTranslatedDocument echoEnv dataExample docAccess ''output'' ''es''
                    ''ollama'' ''pdf'' (exampleWorld (\<lambda>path. None)))) (FullPath docAccess)
     = Some (ModifiedAt docAccess)"
proof -
  have a: "\<not> isNewer worldRecorded (FullPath docAccess) (ModifiedAt docAccess)"
    by code_simp
  have b: "subjects worldRecorded ''/repo/policies/access.md'' = Some 7" by code_simp
  have c: "ModifiedAt docAccess = 7" by code_simp
  have d: "isNewer (exampleWorld (\<lambda>path. None)) (FullPath docAccess) (ModifiedAt docAccess)"
    by code_simp
  have e: "take 2 (trace (snd (renderTranslatedDocument echoEnv dataExample docAccess ''output''
                         ''es'' ''ollama'' ''pdf'' (exampleWorld (\<lambda>path. None)))))
     = [RecordModified ''/repo/policies/access.md'' 7,
        Write ''output/access.md'' (Body docAccess)]"
    by code_simp
  show ?thesis
    using staleness_check [where w = worldRecorded and doc = docAccess and env = echoEnv
        and data = dataExample and outputDir = "''output''" and targetLang = "''es''"
        and provider = "''ollama''" and format = "''pdf''"]
      staleness_check [where w = "exampleWorld (\<lambda>path. None)" and doc = docAccess
        and env = echoEnv and data = dataExample and outputDir = "''output''"
        and targetLang = "''es''" and provider = "''ollama''" and format = "''pdf''"]
      a b c d e
    by blast
qed

text \<open>
  C6 fails on the code for the format html: the renderer is run for a PDF only. Whatever
  the arguments, runPandoc answers an output name that ends in .html with success at once
  and without any effect, so
  generateTranslatedHTML runs no renderer. In the example, renderTranslatedDocument with
  format html succeeds, runs no renderer, removes both markdown files and prints the name
  of an HTML file that nothing has produced; with format pdf the same document gives one
  renderer run, for access_es.
\<close>

theorem html_renderer_not_invoked:
  "runPandoc env (args @ [stem @ ''.html'', mdPath]) w = (None, w) \<and>
   generateTranslatedHTML env ''output/access_es.md'' ''output'' ''access'' ''es'' w = (None, w) \<and>
   fst (renderTranslatedDocument echoEnv dataExample docAccess ''output'' ''es'' ''ollama''
          ''html'' (exampleWorld (\<lambda>path. None))) = Ok () \<and>
   pandocRuns (trace (snd (renderTranslatedDocument echoEnv dataExample docAccess ''output''
          ''es'' ''ollama'' ''html'' (exampleWorld (\<lambda>path. None))))) = [] \<and>
   drop 4 (trace (snd (renderTranslatedDocument echoEnv dataExample docAccess ''output''
          ''es'' ''ollama'' ''html'' (exampleWorld (\<lambda>path. None)))))
     = [Remove ''output/access.md'', Remove ''output/access_es.md''] \<and>
   stdout (snd (renderTranslatedDocument echoEnv dataExample docAccess ''output''
          ''es'' ''ollama'' ''html'' (exampleWorld (\<lambda>path. None))))
     = [''Translating Access Policy to es...\<newline>'',
        ''/repo/policies/access.md -> output/access_es.html (es)\<newline>''] \<and>
   pandocRuns (trace (snd (renderTranslatedDocument echoEnv dataExample docAccess ''output''
          ''es'' ''ollama'' ''pdf'' (exampleWorld (\<lambda>path. None))))) = [''access_es'']"
proof -
  have p: "filepathJoin [''output'', ''access'' @ ''_'' @ ''es'' @ ''.html'']
             = ''output/access_es'' @ ''.html''"
    by code_simp
  have g: "generateTranslatedHTML env ''output/access_es.md'' ''output'' ''access'' ''es'' w
             = (None, w)"
    unfolding generateTranslatedHTML_def Let_def p
    using runPandoc_html [of env "[''-f'', ''markdown+smart'', ''--toc'', ''-N'', ''-s'', ''-o'']"
                             "''output/access_es''" "''output/access_es.md''" w]
    by simp
  have a: "fst (renderTranslatedDocument echoEnv dataExample docAccess ''output'' ''es'' ''ollama''
          ''html'' (exampleWorld (\<lambda>path. None))) = Ok ()"
    by code_simp
  have b: "pandocRuns (trace (snd (renderTranslatedDocument echoEnv dataExample docAccess ''output''
          ''es'' ''ollama'' ''html'' (exampleWorld (\<lambda>path. None))))) = []"
    by code_simp
  have c: "drop 4 (trace (snd (renderTranslatedDocument echoEnv dataExample docAccess ''output''
          ''es'' ''ollama'' ''html'' (exampleWorld (\<lambda>path. None)))))
     = [Remove ''output/access.md'', Remove ''output/access_es.md'']"
    by code_simp
  have d: "stdout (snd (renderTranslatedDocument echoEnv dataExample docAccess ''output''
          ''es'' ''ollama'' ''html'' (exampleWorld (\<lambda>path. None))))
     = [''Translating Access Policy to es...\<newline>'',
        ''/repo/policies/access.md -> output/access_es.html (es)\<newline>'']"
    by code_simp
  have e: "pandocRuns (trace (snd (renderTranslatedDocument echoEnv dataExample docAccess ''output''
          ''es'' ''ollama'' ''pdf'' (exampleWorld (\<lambda>path. None))))) = [''access_es'']"
    by code_simp
  show ?thesis
    using runPandoc_html [of env args stem mdPath w] g a b c d e by (intro conjI)
qed

text \<open>
  C3, as amended. Both paths stop at the first failure. In a loop of a batch driver (renderDocuments,
  the loop over the policies, the procedures or the narratives), if the documents before
  \<open>doc\<close> succeed and renderTranslatedDocument fails for \<open>doc\<close>, the loop returns that error
  wrapped with the kind and name of the document, in the world the failed call left: no
  document after it is processed. pdfTranslated and htmlTranslated send the result of the
  first of their three loops that is not success, so a failure in one loop also leaves out
  the loops after it, and the value sent is that failure. In TranslateTemplates, if the
  files before \<open>template\<close> and the languages before \<open>lang\<close> succeed and translateSingleTemplate
  fails for \<open>template\<close> and \<open>lang\<close>, the run returns that error wrapped with both names, in the
  world the failed call left: no further language or template is attempted.
\<close>

theorem first_failure_ends_run:
  "(renderDocuments env data earlier what outputDir targetLang provider format w0 = (Ok (), w1) \<and>
    renderTranslatedDocument env data doc outputDir targetLang provider format w1
      = (Fail err, w2) \<longrightarrow>
      renderDocuments env data (earlier @ doc # later) what outputDir targetLang provider
          format w0
        = (Fail (Wrap err (what @ Name doc)), w2)) \<and>
   (getRenderData env = Inr data \<longrightarrow>
      pdfTranslated env outputDir targetLang provider live w =
        (let P = renderDocuments env data (Policies data)
                   ''unable to render translated policy: ''
                   outputDir targetLang provider ''pdf''
                   (printOut (''Generating translated PDF documents ('' @ targetLang
                                @ '')...\<newline>'') w);
             Q = renderDocuments env data (map procedureDocument (Procedures data))
                   ''unable to render translated procedure: ''
                   outputDir targetLang provider ''pdf'' (snd P);
             N = renderDocuments env data (Narratives data)
                   ''unable to render translated narrative: ''
                   outputDir targetLang provider ''pdf'' (snd Q)
         in if fst P \<noteq> Ok () then P else if fst Q \<noteq> Ok () then Q else N)) \<and>
   (getRenderData env = Inr data \<longrightarrow>
      htmlTranslated env outputDir targetLang provider live w =
        (let P = renderDocuments env data (Policies data)
                   ''unable to render translated policy HTML: ''
                   outputDir targetLang provider ''html''
                   (printOut (''Generating translated HTML documents ('' @ targetLang
                                @ '')...\<newline>'') w);
             Q = renderDocuments env data (map procedureDocument (Procedures data))
                   ''unable to render translated procedure HTML: ''
                   outputDir targetLang provider ''html'' (snd P);
             N = renderDocuments env data (Narratives data)
                   ''unable to render translated narrative HTML: ''
                   outputDir targetLang provider ''html'' (snd Q)
         in if fst P \<noteq> Ok () then P else if fst Q \<noteq> Ok () then Q else N)) \<and>
   (Translation cenv = Some cfg \<and> cfgEnabled cfg \<and>
    cfgLanguages cfg = languagesBefore @ lang # languagesAfter \<and>
    (if cprovider = [] then cfgProvider cfg else cprovider) \<noteq> [] \<and>
    (if path \<noteq> [] then getFilesToTranslate cenv cw path else getAllTemplateFiles cenv cw)
      = Ok (filesBefore @ template # filesAfter) \<and>
    translateFiles cenv filesBefore (cfgLanguages cfg)
        (if cprovider = [] then cfgProvider cfg else cprovider) (cfgModel cfg)
        (printOut (''Translating '' @ showNat (length (filesBefore @ template # filesAfter))
                     @ '' files to languages: '' @ Join (cfgLanguages cfg) '', ''
                     @ ''\<newline>'') cw)
      = (Ok (), cw1) \<and>
    translateLanguages cenv template languagesBefore
        (if cprovider = [] then cfgProvider cfg else cprovider) (cfgModel cfg) cw1
      = (Ok (), cw2) \<and>
    translateSingleTemplate cenv template lang
        (if cprovider = [] then cfgProvider cfg else cprovider) (cfgModel cfg) cw2
      = (Fail cerr, cw3) \<longrightarrow>
      TranslateTemplates cenv path cprovider cw
        = (Fail (Wrap cerr (''failed to translate '' @ template @ '' to '' @ lang)), cw3))"
proof (intro conjI impI)
  assume "renderDocuments env data earlier what outputDir targetLang provider format w0
            = (Ok (), w1) \<and>
          renderTranslatedDocument env data doc outputDir targetLang provider format w1
            = (Fail err, w2)"
  then show "renderDocuments env data (earlier @ doc # later) what outputDir targetLang
               provider format w0 = (Fail (Wrap err (what @ Name doc)), w2)"
    using renderDocuments_first_failure by blast
next
  assume g: "getRenderData env = Inr data"
  show "pdfTranslated env outputDir targetLang provider live w =
        (let P = renderDocuments env data (Policies data)
                   ''unable to render translated policy: ''
                   outputDir targetLang provider ''pdf''
                   (printOut (''Generating translated PDF documents ('' @ targetLang
                                @ '')...\<newline>'') w);
             Q = renderDocuments env data (map procedureDocument (Procedures data))
                   ''unable to render translated procedure: ''
                   outputDir targetLang provider ''pdf'' (snd P);
             N = renderDocuments env data (Narratives data)
                   ''unable to render translated narrative: ''
                   outputDir targetLang provider ''pdf'' (snd Q)
         in if fst P \<noteq> Ok () then P else if fst Q \<noteq> Ok () then Q else N)"
    unfolding pdfTranslated_def translatedBatch_result [OF g] by simp
next
  assume g: "getRenderData env = Inr data"
  show "htmlTranslated env outputDir targetLang provider live w =
        (let P = renderDocuments env data (Policies data)
                   ''unable to render translated policy HTML: ''
                   outputDir targetLang provider ''html''
                   (printOut (''Generating translated HTML documents ('' @ targetLang
                                @ '')...\<newline>'') w);
             Q = renderDocuments env data (map procedureDocument (Procedures data))
                   ''unable to render translated procedure HTML: ''
                   outputDir targetLang provider ''html'' (snd P);
             N = renderDocuments env data (Narratives data)
                   ''unable to render translated narrative HTML: ''
                   outputDir targetLang provider ''html'' (snd Q)
         in if fst P \<noteq> Ok () then P else if fst Q \<noteq> Ok () then Q else N)"
    unfolding htmlTranslated_def translatedBatch_result [OF g] by simp
next
  let ?p = "if cprovider = [] then cfgProvider cfg else cprovider"
  let ?found = "filesBefore @ template # filesAfter"
  let ?banner = "''Translating '' @ showNat (length ?found)
                     @ '' files to languages: '' @ Join (cfgLanguages cfg) '', ''
                     @ ''\<newline>''"
  assume a: "Translation cenv = Some cfg \<and> cfgEnabled cfg \<and>
    cfgLanguages cfg = languagesBefore @ lang # languagesAfter \<and>
    ?p \<noteq> [] \<and>
    (if path \<noteq> [] then getFilesToTranslate cenv cw path else getAllTemplateFiles cenv cw)
      = Ok ?found \<and>
    translateFiles cenv filesBefore (cfgLanguages cfg) ?p (cfgModel cfg)
        (printOut ?banner cw) = (Ok (), cw1) \<and>
    translateLanguages cenv template languagesBefore ?p (cfgModel cfg) cw1 = (Ok (), cw2) \<and>
    translateSingleTemplate cenv template lang ?p (cfgModel cfg) cw2 = (Fail cerr, cw3)"
  have langs: "cfgLanguages cfg = languagesBefore @ lang # languagesAfter" using a by blast
  have f1: "translateFiles cenv filesBefore (languagesBefore @ lang # languagesAfter) ?p
              (cfgModel cfg) (printOut ?banner cw) = (Ok (), cw1)"
    using a langs by metis
  have f2: "translateLanguages cenv template languagesBefore ?p (cfgModel cfg) cw1 = (Ok (), cw2)"
    using a by blast
  have f3: "translateSingleTemplate cenv template lang ?p (cfgModel cfg) cw2 = (Fail cerr, cw3)"
    using a by blast
  have tf: "translateFiles cenv ?found (cfgLanguages cfg) ?p (cfgModel cfg)
              (printOut ?banner cw)
            = (Fail (Wrap cerr (''failed to translate '' @ template @ '' to '' @ lang)), cw3)"
    using translateFiles_first_failure [OF f1 f2 f3, of filesAfter]
    unfolding langs [symmetric] .
  have ne: "cfgLanguages cfg \<noteq> []" using langs by simp
  have fne: "?found \<noteq> []" by simp
  show "TranslateTemplates cenv path cprovider cw
        = (Fail (Wrap cerr (''failed to translate '' @ template @ '' to '' @ lang)), cw3)"
    using a by (intro TranslateTemplates_failure [OF _ _ ne _ _ fne tf]) blast+
qed


theorem first_failure_ends_run_witness:
  "getRenderData (brokenBatchEnv ''Asset Policy'') = Inr dataBatch \<and>
   fst (renderDocuments (brokenBatchEnv ''Asset Policy'') dataBatch [docAccess] ''unable to render translated policy: '' ''output'' ''es'' ''ollama'' ''pdf'' (printOut ''Generating translated PDF documents (es)...\<newline>'' (exampleWorld (\<lambda>path. None)))) = Ok () \<and>
   fst (renderTranslatedDocument (brokenBatchEnv ''Asset Policy'') dataBatch docAsset ''output'' ''es'' ''ollama'' ''pdf'' (snd (renderDocuments (brokenBatchEnv ''Asset Policy'') dataBatch [docAccess] ''unable to render translated policy: '' ''output'' ''es'' ''ollama'' ''pdf'' (printOut ''Generating translated PDF documents (es)...\<newline>'' (exampleWorld (\<lambda>path. None)))))) = Fail (Wrap (Errorf ''template: unexpected EOF'') ''unable to preprocess document for translation'') \<and>
   renderDocuments (brokenBatchEnv ''Asset Policy'') dataBatch [docAccess, docAsset] ''unable to render translated policy: '' ''output'' ''es'' ''ollama'' ''pdf'' (printOut ''Generating translated PDF documents (es)...\<newline>'' (exampleWorld (\<lambda>path. None)))
     = (Fail (Wrap (Wrap (Errorf ''template: unexpected EOF'') ''unable to preprocess document for translation'') ''unable to render translated policy: Asset Policy''), (snd (renderTranslatedDocument (brokenBatchEnv ''Asset Policy'') dataBatch docAsset ''output'' ''es'' ''ollama'' ''pdf'' (snd (renderDocuments (brokenBatchEnv ''Asset Policy'') dataBatch [docAccess] ''unable to render translated policy: '' ''output'' ''es'' ''ollama'' ''pdf'' (printOut ''Generating translated PDF documents (es)...\<newline>'' (exampleWorld (\<lambda>path. None)))))))) \<and>
   pdfTranslated (brokenBatchEnv ''Asset Policy'') ''output'' ''es'' ''ollama'' False (exampleWorld (\<lambda>path. None))
     = (Fail (Wrap (Wrap (Errorf ''template: unexpected EOF'') ''unable to preprocess document for translation'') ''unable to render translated policy: Asset Policy''), (snd (renderTranslatedDocument (brokenBatchEnv ''Asset Policy'') dataBatch docAsset ''output'' ''es'' ''ollama'' ''pdf'' (snd (renderDocuments (brokenBatchEnv ''Asset Policy'') dataBatch [docAccess] ''unable to render translated policy: '' ''output'' ''es'' ''ollama'' ''pdf'' (printOut ''Generating translated PDF documents (es)...\<newline>'' (exampleWorld (\<lambda>path. None)))))))) \<and>
   fst (htmlTranslated (brokenBatchEnv ''Asset Policy'') ''output'' ''es'' ''ollama'' False (exampleWorld (\<lambda>path. None)))
     = Fail (Wrap (Wrap (Errorf ''template: unexpected EOF'') ''unable to preprocess document for translation'') ''unable to render translated policy HTML: Asset Policy'') \<and>
   htmlTranslated (brokenBatchEnv ''Asset Policy'') ''output'' ''es'' ''ollama'' False (exampleWorld (\<lambda>path. None))
     = renderDocuments (brokenBatchEnv ''Asset Policy'') dataBatch [docAccess, docAsset] ''unable to render translated policy HTML: '' ''output'' ''es'' ''ollama'' ''html'' (printOut ''Generating translated HTML documents (es)...\<newline>'' (exampleWorld (\<lambda>path. None))) \<and>
   Translation (templateEnv 200 openAIBody) = Some \<lparr>cfgEnabled = True, cfgLanguages = [''es'', ''fr''], cfgProvider = ''openai'', cfgModel = []\<rparr> \<and>
   getFilesToTranslate (templateEnv 200 openAIBody) worldOnlySpanish ''policies/patch.md'' = Ok [''policies/patch.md''] \<and>
   fst (translateLanguages (templateEnv 200 openAIBody) ''policies/patch.md'' [''es''] ''openai'' [] (printOut ''Translating 1 files to languages: es, fr\<newline>'' worldOnlySpanish)) = Ok () \<and>
   fst (translateSingleTemplate (templateEnv 200 openAIBody) ''policies/patch.md'' ''fr'' ''openai'' [] (snd (translateLanguages (templateEnv 200 openAIBody) ''policies/patch.md'' [''es''] ''openai'' [] (printOut ''Translating 1 files to languages: es, fr\<newline>'' worldOnlySpanish)))) = Fail (Wrap (Errorf ''open policies/patch.fr.md: permission denied'') ''unable to write translated file: policies/patch.fr.md'') \<and>
   TranslateTemplates (templateEnv 200 openAIBody) ''policies/patch.md'' [] worldOnlySpanish = (Fail (Wrap (Wrap (Errorf ''open policies/patch.fr.md: permission denied'') ''unable to write translated file: policies/patch.fr.md'') ''failed to translate policies/patch.md to fr''), (snd (translateSingleTemplate (templateEnv 200 openAIBody) ''policies/patch.md'' ''fr'' ''openai'' [] (snd (translateLanguages (templateEnv 200 openAIBody) ''policies/patch.md'' [''es''] ''openai'' [] (printOut ''Translating 1 files to languages: es, fr\<newline>'' worldOnlySpanish))))))"
proof -
  let ?env = "brokenBatchEnv ''Asset Policy''"
  let ?W = "exampleWorld (\<lambda>path. None)"
  let ?w0 = "printOut ''Generating translated PDF documents (es)...\<newline>'' (exampleWorld (\<lambda>path. None))"
  let ?h0 = "printOut ''Generating translated HTML documents (es)...\<newline>'' (exampleWorld (\<lambda>path. None))"
  let ?what = "''unable to render translated policy: ''"
  let ?w1 = "snd (renderDocuments (brokenBatchEnv ''Asset Policy'') dataBatch [docAccess] ''unable to render translated policy: '' ''output'' ''es'' ''ollama'' ''pdf'' (printOut ''Generating translated PDF documents (es)...\<newline>'' (exampleWorld (\<lambda>path. None))))"
  let ?w2 = "snd (renderTranslatedDocument (brokenBatchEnv ''Asset Policy'') dataBatch docAsset ''output'' ''es'' ''ollama'' ''pdf'' (snd (renderDocuments (brokenBatchEnv ''Asset Policy'') dataBatch [docAccess] ''unable to render translated policy: '' ''output'' ''es'' ''ollama'' ''pdf'' (printOut ''Generating translated PDF documents (es)...\<newline>'' (exampleWorld (\<lambda>path. None))))))"
  let ?err = "Wrap (Errorf ''template: unexpected EOF'') ''unable to preprocess document for translation''"
  let ?cenv = "templateEnv 200 openAIBody"
  let ?cfg = "\<lparr>cfgEnabled = True, cfgLanguages = [''es'', ''fr''], cfgProvider = ''openai'', cfgModel = []\<rparr>"
  let ?f = "''policies/patch.md''"
  let ?cw1 = "printOut ''Translating 1 files to languages: es, fr\<newline>'' worldOnlySpanish"
  let ?cw2 = "snd (translateLanguages (templateEnv 200 openAIBody) ''policies/patch.md'' [''es''] ''openai'' [] (printOut ''Translating 1 files to languages: es, fr\<newline>'' worldOnlySpanish))"
  let ?cw3 = "snd (translateSingleTemplate (templateEnv 200 openAIBody) ''policies/patch.md'' ''fr'' ''openai'' [] (snd (translateLanguages (templateEnv 200 openAIBody) ''policies/patch.md'' [''es''] ''openai'' [] (printOut ''Translating 1 files to languages: es, fr\<newline>'' worldOnlySpanish))))"
  let ?cerr = "Wrap (Errorf ''open policies/patch.fr.md: permission denied'') ''unable to write translated file: policies/patch.fr.md''"
  note T = first_failure_ends_run [where env = ?env and data = dataBatch
      and earlier = "[docAccess]" and doc = docAsset and later = "[]" and what = ?what
      and outputDir = "''output''" and targetLang = "''es''" and provider = "''ollama''"
      and format = "''pdf''" and ?w0.0 = ?w0 and ?w1.0 = ?w1 and ?w2.0 = ?w2 and err = ?err
      and live = False and w = ?W
      and cenv = ?cenv and cfg = ?cfg and languagesBefore = "[''es'']" and lang = "''fr''"
      and languagesAfter = "[]" and cprovider = "[]" and path = ?f and cw = worldOnlySpanish
      and filesBefore = "[]" and template = ?f and filesAfter = "[]" and ?cw1.0 = ?cw1
      and ?cw2.0 = ?cw2 and ?cw3.0 = ?cw3 and cerr = ?cerr]
  have g: "getRenderData ?env = Inr dataBatch" by code_simp
  have pol: "Policies dataBatch = [docAccess, docAsset]" by (simp add: dataBatch_def)
  have nm: "?what @ Name docAsset = ''unable to render translated policy: Asset Policy''"
    by (simp add: docAsset_def)
  have h1: "fst (renderDocuments ?env dataBatch [docAccess] ?what ''output'' ''es'' ''ollama''
                   ''pdf'' ?w0) = Ok ()"
    by code_simp
  have h2: "fst (renderTranslatedDocument ?env dataBatch docAsset ''output'' ''es'' ''ollama''
                   ''pdf'' ?w1) = Fail ?err"
    by code_simp
  have h1': "renderDocuments ?env dataBatch [docAccess] ?what ''output'' ''es'' ''ollama''
               ''pdf'' ?w0 = (Ok (), ?w1)"
    by (rule prod_eqI) (simp_all only: fst_conv snd_conv h1)
  have h2': "renderTranslatedDocument ?env dataBatch docAsset ''output'' ''es'' ''ollama''
               ''pdf'' ?w1 = (Fail ?err, ?w2)"
    by (rule prod_eqI) (simp_all only: fst_conv snd_conv h2)
  have B0: "renderDocuments ?env dataBatch ([docAccess] @ docAsset # []) ?what ''output''
              ''es'' ''ollama'' ''pdf'' ?w0 = (Fail (Wrap ?err (?what @ Name docAsset)), ?w2)"
    by (rule mp [OF T [THEN conjunct1] conjI [OF h1' h2']])
  have B: "renderDocuments ?env dataBatch [docAccess, docAsset] ?what ''output''
              ''es'' ''ollama'' ''pdf'' ?w0
           = (Fail (Wrap ?err ''unable to render translated policy: Asset Policy''), ?w2)"
    using B0 unfolding nm by (simp only: append_Cons append_Nil)
  have P0: "pdfTranslated ?env ''output'' ''es'' ''ollama'' False ?W =
        (let P = renderDocuments ?env dataBatch (Policies dataBatch) ?what
                   ''output'' ''es'' ''ollama'' ''pdf''
                   (printOut (''Generating translated PDF documents ('' @ ''es''
                                @ '')...\<newline>'') ?W);
             Q = renderDocuments ?env dataBatch (map procedureDocument (Procedures dataBatch))
                   ''unable to render translated procedure: ''
                   ''output'' ''es'' ''ollama'' ''pdf'' (snd P);
             N = renderDocuments ?env dataBatch (Narratives dataBatch)
                   ''unable to render translated narrative: ''
                   ''output'' ''es'' ''ollama'' ''pdf'' (snd Q)
         in if fst P \<noteq> Ok () then P else if fst Q \<noteq> Ok () then Q else N)"
    by (rule mp [OF T [THEN conjunct2, THEN conjunct1] g])
  have bn: "''Generating translated PDF documents ('' @ ''es'' @ '')...\<newline>''
              = ''Generating translated PDF documents (es)...\<newline>''"
    by simp
  have P: "pdfTranslated ?env ''output'' ''es'' ''ollama'' False ?W
           = (Fail (Wrap ?err ''unable to render translated policy: Asset Policy''), ?w2)"
    unfolding P0 Let_def pol bn B
    by (simp only: fst_conv result.distinct if_True not_False_eq_True)
  have H0: "htmlTranslated ?env ''output'' ''es'' ''ollama'' False ?W =
        (let P = renderDocuments ?env dataBatch (Policies dataBatch)
                   ''unable to render translated policy HTML: ''
                   ''output'' ''es'' ''ollama'' ''html''
                   (printOut (''Generating translated HTML documents ('' @ ''es''
                                @ '')...\<newline>'') ?W);
             Q = renderDocuments ?env dataBatch (map procedureDocument (Procedures dataBatch))
                   ''unable to render translated procedure HTML: ''
                   ''output'' ''es'' ''ollama'' ''html'' (snd P);
             N = renderDocuments ?env dataBatch (Narratives dataBatch)
                   ''unable to render translated narrative HTML: ''
                   ''output'' ''es'' ''ollama'' ''html'' (snd Q)
         in if fst P \<noteq> Ok () then P else if fst Q \<noteq> Ok () then Q else N)"
    by (rule mp [OF T [THEN conjunct2, THEN conjunct2, THEN conjunct1] g])
  have hn: "''Generating translated HTML documents ('' @ ''es'' @ '')...\<newline>''
              = ''Generating translated HTML documents (es)...\<newline>''"
    by simp
  have hf: "fst (renderDocuments ?env dataBatch [docAccess, docAsset]
                   ''unable to render translated policy HTML: ''
                   ''output'' ''es'' ''ollama'' ''html'' ?h0)
            = Fail (Wrap ?err ''unable to render translated policy HTML: Asset Policy'')"
    by code_simp
  have H: "htmlTranslated ?env ''output'' ''es'' ''ollama'' False ?W
           = renderDocuments ?env dataBatch [docAccess, docAsset]
               ''unable to render translated policy HTML: ''
               ''output'' ''es'' ''ollama'' ''html'' ?h0"
    unfolding H0 Let_def pol hn hf
    by (simp only: result.distinct if_True not_False_eq_True)
  have Hf: "fst (htmlTranslated ?env ''output'' ''es'' ''ollama'' False ?W)
            = Fail (Wrap ?err ''unable to render translated policy HTML: Asset Policy'')"
    unfolding H by (rule hf)
  have c1: "Translation ?cenv = Some ?cfg" by code_simp
  have c2: "cfgEnabled ?cfg" by simp
  have c3: "cfgLanguages ?cfg = [''es''] @ ''fr'' # []" by simp
  have c4: "(if [] = ([]::string) then cfgProvider ?cfg else []) \<noteq> []" by simp
  have c5: "getFilesToTranslate ?cenv worldOnlySpanish ?f = Ok [?f]" by code_simp
  have c5': "(if ?f \<noteq> [] then getFilesToTranslate ?cenv worldOnlySpanish ?f
              else getAllTemplateFiles ?cenv worldOnlySpanish) = Ok ([] @ ?f # [])"
    using c5 by simp
  have pr: "(if [] = ([]::string) then cfgProvider ?cfg else []) = ''openai''" by simp
  have md: "cfgModel ?cfg = []" by simp
  have ban: "''Translating '' @ showNat (length ([] @ ?f # []))
               @ '' files to languages: '' @ Join (cfgLanguages ?cfg) '', '' @ ''\<newline>''
             = ''Translating 1 files to languages: es, fr\<newline>''"
    by code_simp
  have c6: "translateFiles ?cenv [] (cfgLanguages ?cfg)
              (if [] = ([]::string) then cfgProvider ?cfg else []) (cfgModel ?cfg)
              (printOut (''Translating '' @ showNat (length ([] @ ?f # []))
                 @ '' files to languages: '' @ Join (cfgLanguages ?cfg) '', '' @ ''\<newline>'')
                 worldOnlySpanish) = (Ok (), ?cw1)"
    unfolding ban by (simp only: translateFiles.simps)
  have c7: "fst (translateLanguages ?cenv ?f [''es''] ''openai'' [] ?cw1) = Ok ()"
    by code_simp
  have c7': "translateLanguages ?cenv ?f [''es'']
               (if [] = ([]::string) then cfgProvider ?cfg else []) (cfgModel ?cfg) ?cw1
             = (Ok (), ?cw2)"
    unfolding pr md by (rule prod_eqI) (simp_all only: fst_conv snd_conv c7)
  have c8: "fst (translateSingleTemplate ?cenv ?f ''fr'' ''openai'' [] ?cw2) = Fail ?cerr"
    by code_simp
  have c8': "translateSingleTemplate ?cenv ?f ''fr''
               (if [] = ([]::string) then cfgProvider ?cfg else []) (cfgModel ?cfg) ?cw2
             = (Fail ?cerr, ?cw3)"
    unfolding pr md by (rule prod_eqI) (simp_all only: fst_conv snd_conv c8)
  have C0: "TranslateTemplates ?cenv ?f [] worldOnlySpanish
            = (Fail (Wrap ?cerr (''failed to translate '' @ ?f @ '' to '' @ ''fr'')), ?cw3)"
    by (rule mp [OF T [THEN conjunct2, THEN conjunct2, THEN conjunct2]])
       (intro conjI c1 c2 c3 c4 c5' c6 c7' c8')
  have cm: "''failed to translate '' @ ?f @ '' to '' @ ''fr''
              = ''failed to translate policies/patch.md to fr''"
    by simp
  have C: "TranslateTemplates ?cenv ?f [] worldOnlySpanish
            = (Fail (Wrap ?cerr ''failed to translate policies/patch.md to fr''), ?cw3)"
    using C0 unfolding cm .
  show ?thesis
    by (intro conjI g h1 h2 B P Hf H c1 c5 c7 c8 C)
qed

text \<open>
  C3 as stated fails: with a preprocessor that fails for the first policy, pdfTranslated
  sends that policy's error and its only effect is the record of the first policy. The
  second policy is newer than its record and renders without error when it is called in
  the world the batch left, yet the batch has not touched it.
\<close>

theorem first_failure_ends_run_counterexample:
  "getRenderData (brokenBatchEnv ''Access Policy'') = Inr dataBatch \<and>
   Policies dataBatch = [docAccess, docAsset] \<and>
   fst (pdfTranslated (brokenBatchEnv ''Access Policy'') ''output'' ''es'' ''ollama'' False (exampleWorld (\<lambda>path. None)))
     = Fail (Wrap (Wrap (Errorf ''template: unexpected EOF'') ''unable to preprocess document for translation'') ''unable to render translated policy: Access Policy'') \<and>
   trace (snd (pdfTranslated (brokenBatchEnv ''Access Policy'') ''output'' ''es'' ''ollama'' False (exampleWorld (\<lambda>path. None)))) = [RecordModified ''/repo/policies/access.md'' 7] \<and>
   stdout (snd (pdfTranslated (brokenBatchEnv ''Access Policy'') ''output'' ''es'' ''ollama'' False (exampleWorld (\<lambda>path. None)))) = [''Generating translated PDF documents (es)...\<newline>''] \<and>
   isNewer (snd (pdfTranslated (brokenBatchEnv ''Access Policy'') ''output'' ''es'' ''ollama'' False (exampleWorld (\<lambda>path. None)))) (FullPath docAsset) (ModifiedAt docAsset) \<and>
   fst (renderTranslatedDocument (brokenBatchEnv ''Access Policy'') dataBatch docAsset ''output'' ''es'' ''ollama'' ''pdf''
          (snd (pdfTranslated (brokenBatchEnv ''Access Policy'') ''output'' ''es'' ''ollama'' False (exampleWorld (\<lambda>path. None))))) = Ok ()"
proof -
  have a: "getRenderData (brokenBatchEnv ''Access Policy'') = Inr dataBatch" by code_simp
  have b: "Policies dataBatch = [docAccess, docAsset]" by (simp add: dataBatch_def)
  have c: "fst (pdfTranslated (brokenBatchEnv ''Access Policy'') ''output'' ''es'' ''ollama'' False (exampleWorld (\<lambda>path. None)))
     = Fail (Wrap (Wrap (Errorf ''template: unexpected EOF'') ''unable to preprocess document for translation'') ''unable to render translated policy: Access Policy'')"
    by code_simp
  have d: "trace (snd (pdfTranslated (brokenBatchEnv ''Access Policy'') ''output'' ''es'' ''ollama'' False (exampleWorld (\<lambda>path. None)))) = [RecordModified ''/repo/policies/access.md'' 7]"
    by code_simp
  have e: "stdout (snd (pdfTranslated (brokenBatchEnv ''Access Policy'') ''output'' ''es'' ''ollama'' False (exampleWorld (\<lambda>path. None)))) = [''Generating translated PDF documents (es)...\<newline>'']"
    by code_simp
  have f: "isNewer (snd (pdfTranslated (brokenBatchEnv ''Access Policy'') ''output'' ''es'' ''ollama'' False (exampleWorld (\<lambda>path. None)))) (FullPath docAsset) (ModifiedAt docAsset)"
    by code_simp
  have g: "fst (renderTranslatedDocument (brokenBatchEnv ''Access Policy'') dataBatch docAsset ''output'' ''es'' ''ollama''
          ''pdf'' (snd (pdfTranslated (brokenBatchEnv ''Access Policy'') ''output'' ''es'' ''ollama'' False (exampleWorld (\<lambda>path. None))))) = Ok ()"
    by code_simp
  show ?thesis by (intro conjI a b c d e f g)
qed




end
